theory Spec2Isabelle
  imports Main "HOL-Library.Word"
begin

section \<open>PKCE challenge derivation (utils/pkce: generateCodeChallenge)\<close>

text \<open>
  A byte of a Node \<open>Buffer\<close> is an 8-bit word. The hash itself
  (\<open>createHash("sha256").update(s).digest()\<close>) is the platform's and is a parameter
  of the model: any function from the verifier to a digest.
\<close>

type_synonym byte = "8 word"

text \<open>The alphabet of the standard base64 encoding, as \<open>Buffer.toString("base64")\<close> uses it.\<close>

definition stdAlphabet :: string where
  "stdAlphabet = ''ABCDEFGHIJKLMNOPQRSTUVWXYZabcdefghijklmnopqrstuvwxyz0123456789+/''"

text \<open>
  The four sextets of a group of three bytes, read from the most significant bit on.
  A missing byte of the last group counts as zero.
\<close>

definition sextet0 :: "byte \<Rightarrow> nat" where
  "sextet0 a = unat a div 4"

definition sextet1 :: "byte \<Rightarrow> byte \<Rightarrow> nat" where
  "sextet1 a b = (unat a mod 4) * 16 + unat b div 16"

definition sextet2 :: "byte \<Rightarrow> byte \<Rightarrow> nat" where
  "sextet2 b c = (unat b mod 16) * 4 + unat c div 64"

definition sextet3 :: "byte \<Rightarrow> nat" where
  "sextet3 c = unat c mod 64"

text \<open>\<open>digest("base64")\<close>: standard alphabet, output padded with \<open>=\<close> to a multiple of four.\<close>

fun toBase64 :: "byte list \<Rightarrow> string" where
  "toBase64 [] = []"
| "toBase64 [a] =
     [stdAlphabet ! sextet0 a, stdAlphabet ! sextet1 a 0, CHR ''='', CHR ''='']"
| "toBase64 [a, b] =
     [stdAlphabet ! sextet0 a, stdAlphabet ! sextet1 a b, stdAlphabet ! sextet2 b 0, CHR ''='']"
| "toBase64 (a # b # c # rest) =
     [stdAlphabet ! sextet0 a, stdAlphabet ! sextet1 a b,
      stdAlphabet ! sextet2 b c, stdAlphabet ! sextet3 c] @ toBase64 rest"

text \<open>\<open>s.replace(/c/g, d)\<close> for a one-character pattern and a one-character replacement.\<close>

definition replaceChar :: "char \<Rightarrow> char \<Rightarrow> string \<Rightarrow> string" where
  "replaceChar c d s = map (\<lambda>x. if x = c then d else x) s"

text \<open>\<open>s.replace(/c/g, "")\<close>: every occurrence of the character is dropped.\<close>

definition removeChar :: "char \<Rightarrow> string \<Rightarrow> string" where
  "removeChar c s = filter (\<lambda>x. x \<noteq> c) s"

text \<open>
  \<^verbatim>\<open>
  export function generateCodeChallenge(codeVerifier: string): string {
    return createHash("sha256").update(codeVerifier).digest("base64")
      .replace(/\+/g, "-").replace(/\//g, "_").replace(/=/g, "");
  }
  \<close>
\<close>

definition generateCodeChallenge :: "(string \<Rightarrow> byte list) \<Rightarrow> string \<Rightarrow> string" where
  "generateCodeChallenge sha256 codeVerifier =
     removeChar CHR ''=''
       (replaceChar CHR ''/'' CHR ''_''
         (replaceChar CHR ''+'' CHR ''-'' (toBase64 (sha256 codeVerifier))))"

subsection \<open>The base64url encoding, as the specification names it\<close>

text \<open>
  The reference encoding the specification compares with: base64 over the URL- and
  filename-safe alphabet (RFC 4648, section 5), written without padding. It is defined on
  its own, not through the standard encoding.
\<close>

definition urlAlphabet :: string where
  "urlAlphabet = ''ABCDEFGHIJKLMNOPQRSTUVWXYZabcdefghijklmnopqrstuvwxyz0123456789-_''"

fun base64url :: "byte list \<Rightarrow> string" where
  "base64url [] = []"
| "base64url [a] = [urlAlphabet ! sextet0 a, urlAlphabet ! sextet1 a 0]"
| "base64url [a, b] =
     [urlAlphabet ! sextet0 a, urlAlphabet ! sextet1 a b, urlAlphabet ! sextet2 b 0]"
| "base64url (a # b # c # rest) =
     [urlAlphabet ! sextet0 a, urlAlphabet ! sextet1 a b,
      urlAlphabet ! sextet2 b c, urlAlphabet ! sextet3 c] @ base64url rest"

text \<open>The two character replacements of \<open>generateCodeChallenge\<close>, composed on one character.\<close>

definition urlChar :: "char \<Rightarrow> char" where
  "urlChar x = (let y = (if x = CHR ''+'' then CHR ''-'' else x)
                in if y = CHR ''/'' then CHR ''_'' else y)"

section \<open>JavaScript values and the browser platform\<close>

text \<open>
  A value that \<open>JSON.parse\<close> returns or that an object literal of the source holds.
  \<open>JUndefined\<close> is the value of a property that is not there. Numbers are the integers
  (the numbers the source reads are \<open>exp\<close> claims, whole seconds since the epoch).
  An object lists each of its keys once. \<open>JFunction\<close> is a method that a property read
  finds on a prototype.
\<close>

datatype jsval =
    JUndefined
  | JNull
  | JBool bool
  | JNumber int
  | JString string
  | JArray "jsval list"
  | JObject "(string \<times> jsval) list"
  | JFunction

text \<open>What \<open>if (v)\<close>, \<open>!v\<close>, \<open>v && w\<close> and \<open>v || w\<close> test.\<close>

fun truthy :: "jsval \<Rightarrow> bool" where
  "truthy JUndefined = False"
| "truthy JNull = False"
| "truthy (JBool b) = b"
| "truthy (JNumber n) = (n \<noteq> 0)"
| "truthy (JString s) = (s \<noteq> [])"
| "truthy (JArray xs) = True"
| "truthy (JObject kvs) = True"
| "truthy JFunction = True"

definition jsOr :: "jsval \<Rightarrow> jsval \<Rightarrow> jsval" where
  "jsOr a b = (if truthy a then a else b)"

text \<open>
  The property read \<open>v.k\<close> (or \<open>v['k']\<close>) for the keys the source reads: \<open>exp\<close>,
  \<open>sub\<close>, \<open>email\<close>, \<open>name\<close>, \<open>preferred_username\<close>, \<open>username\<close>, \<open>cognito:groups\<close>,
  \<open>email_verified\<close>, \<open>authenticated\<close>, \<open>user\<close>, \<open>cognitoDomain\<close>, \<open>cognitoClientId\<close>,
  \<open>id_token\<close>, \<open>authorizer\<close>, \<open>claims\<close>, \<open>redirectUri\<close>. On \<open>undefined\<close> and \<open>null\<close>
  it throws a TypeError: \<open>None\<close>. On an object it is the value at the key, or
  \<open>undefined\<close>. A boolean, a number and an array have none of these keys; of a string,
  \<open>sub\<close> is a method (\<open>String.prototype.sub\<close>) and the others are \<open>undefined\<close>; of
  that method, \<open>name\<close> is \<open>"sub"\<close>.
\<close>

fun getProp :: "jsval \<Rightarrow> string \<Rightarrow> jsval option" where
  "getProp JUndefined k = None"
| "getProp JNull k = None"
| "getProp (JObject kvs) k = Some (case map_of kvs k of None \<Rightarrow> JUndefined | Some v \<Rightarrow> v)"
| "getProp (JBool b) k = Some JUndefined"
| "getProp (JNumber n) k = Some JUndefined"
| "getProp (JString s) k = Some (if k = ''sub'' then JFunction else JUndefined)"
| "getProp (JArray xs) k = Some JUndefined"
| "getProp JFunction k = Some (if k = ''name'' then JString ''sub'' else JUndefined)"

text \<open>A \<open>string | null\<close>, as \<open>sessionStorage.getItem\<close> returns it: the empty string is falsy.\<close>

definition truthyStr :: "string option \<Rightarrow> bool" where
  "truthyStr v = (case v of None \<Rightarrow> False | Some s \<Rightarrow> s \<noteq> [])"

definition orStr :: "string option \<Rightarrow> string option \<Rightarrow> string option" where
  "orStr a b = (if truthyStr a then a else b)"

text \<open>\<open>a || b\<close> for a \<open>string | null\<close> on the left and a string on the right.\<close>

definition strOrElse :: "string option \<Rightarrow> string \<Rightarrow> string" where
  "strOrElse a b = (case a of None \<Rightarrow> b | Some s \<Rightarrow> if s = [] then b else s)"

text \<open>
  A request as \<open>fetch\<close> sends it. Header names are in lower case, as the \<open>Headers\<close> class
  keeps them, each name once.
\<close>

record request =
  req_url :: string
  req_method :: string
  req_headers :: "(string \<times> string) list"
  req_body :: "string option"

record response =
  res_status :: nat
  res_statusText :: string
  res_body :: string

text \<open>\<open>response.ok\<close>: the status is in the range 200 to 299.\<close>

definition res_ok :: "response \<Rightarrow> bool" where
  "res_ok r = (200 \<le> res_status r \<and> res_status r \<le> 299)"

text \<open>
  What the program takes from the browser and from the network, as parameters of the model:
  \<^item> \<open>JSON_parse\<close>, \<open>atob\<close>: \<open>None\<close> when the call throws;
  \<^item> \<open>String_of\<close>: the string conversion of a value that is not a string (template
    literals, \<open>URLSearchParams\<close>, \<open>setItem\<close>);
  \<^item> \<open>Number_of\<close>: the number conversion of a string, array or object, \<open>None\<close> for NaN;
  \<^item> \<open>formEncode\<close>: \<open>URLSearchParams.toString()\<close>;
  \<^item> \<open>urlToString\<close>: \<open>new URL(base)\<close> with the search parameters set, as a string;
    \<open>None\<close> when \<open>base\<close> is not a URL and the constructor throws;
  \<^item> \<open>fetch\<close>: the answer of the network to a request, \<open>None\<close> when the promise
    rejects;
  \<^item> \<open>API_BASE_URL\<close> (\<open>VITE_USER_API_BASE_URL\<close>; the module throws while it loads
    when it is empty), \<open>location_origin\<close> (\<open>window.location.origin\<close>) and \<open>now\<close>
    (\<open>Math.floor(Date.now() / 1000)\<close>).
\<close>

record platform =
  JSON_parse :: "string \<Rightarrow> jsval option"
  atob :: "string \<Rightarrow> string option"
  String_of :: "jsval \<Rightarrow> string"
  Number_of :: "jsval \<Rightarrow> int option"
  formEncode :: "(string \<times> string) list \<Rightarrow> string"
  urlToString :: "string \<Rightarrow> (string \<times> string) list \<Rightarrow> string option"
  fetch :: "request \<Rightarrow> response option"
  API_BASE_URL :: string
  location_origin :: string
  now :: int

definition toStr :: "platform \<Rightarrow> jsval \<Rightarrow> string" where
  "toStr p v = (case v of JString s \<Rightarrow> s | _ \<Rightarrow> String_of p v)"

text \<open>
  \<open>v < now\<close> with a number on the right: the left operand is converted to a number, and
  the comparison with NaN is false. \<open>undefined\<close> converts to NaN, \<open>null\<close> to 0,
  \<open>false\<close> to 0 and \<open>true\<close> to 1.
\<close>

definition lessThanNow :: "platform \<Rightarrow> jsval \<Rightarrow> bool" where
  "lessThanNow p v =
     (case v of
        JUndefined \<Rightarrow> False
      | JNull \<Rightarrow> 0 < now p
      | JBool b \<Rightarrow> (if b then 1 else 0) < now p
      | JNumber n \<Rightarrow> n < now p
      | _ \<Rightarrow> (case Number_of p v of None \<Rightarrow> False | Some n \<Rightarrow> n < now p))"

text \<open>\<open>s.split(c)\<close> for a one-character separator: \<open>"".split(".")\<close> is \<open>[""]\<close>.\<close>

fun splitOn :: "char \<Rightarrow> string \<Rightarrow> string list" where
  "splitOn c [] = ['''']"
| "splitOn c (x # xs) =
     (if x = c then '''' # splitOn c xs
      else (case splitOn c xs of [] \<Rightarrow> [x # ''''] | s # ss \<Rightarrow> (x # s) # ss))"

text \<open>
  \<open>JSON.parse(atob(token.split('.')[1]))\<close>. A token with no dot has no second segment:
  \<open>atob(undefined)\<close> decodes the string \<open>"undefined"\<close>. \<open>None\<close> when \<open>atob\<close> or
  \<open>JSON.parse\<close> throws.
\<close>

definition decodePayload :: "platform \<Rightarrow> string \<Rightarrow> jsval option" where
  "decodePayload p token =
     (let segments = splitOn CHR ''.'' token;
          payload = (if 1 < length segments then segments ! 1 else ''undefined'')
      in case atob p payload of
           None \<Rightarrow> None
         | Some json \<Rightarrow> JSON_parse p json)"

section \<open>The PKCE client (the api module of the UI)\<close>

definition TOKEN_STORAGE_KEY :: string where "TOKEN_STORAGE_KEY = ''cognito_access_token''"
definition ID_TOKEN_STORAGE_KEY :: string where "ID_TOKEN_STORAGE_KEY = ''cognito_id_token''"
definition CODE_VERIFIER_KEY :: string where "CODE_VERIFIER_KEY = ''pkce_code_verifier''"
definition STATE_KEY :: string where "STATE_KEY = ''oauth_state''"
definition REDIRECT_URI_KEY :: string where "REDIRECT_URI_KEY = ''oauth_redirect_uri''"

text \<open>
  The state of the module: its two variables, the session storage of the tab, and what
  left the page: the requests given to \<open>fetch\<close>, in order, and the last value assigned to
  \<open>window.location.href\<close>.
\<close>

record api_state =
  COGNITO_DOMAIN :: jsval
  COGNITO_CLIENT_ID :: jsval
  sessionStorage :: "string \<rightharpoonup> string"
  sent :: "request list"
  href :: "string option"

text \<open>A freshly loaded page: the module variables are \<open>null\<close>, the session storage is the tab's.\<close>

definition pageLoad :: "(string \<rightharpoonup> string) \<Rightarrow> api_state" where
  "pageLoad storage =
     \<lparr>COGNITO_DOMAIN = JNull, COGNITO_CLIENT_ID = JNull, sessionStorage = storage,
      sent = [], href = None\<rparr>"

datatype error =
    ConfigLoadFailed        \<comment> \<open>"Failed to load Cognito configuration"\<close>
  | ConfigNotAvailable      \<comment> \<open>"Cognito configuration not available"\<close>
  | InvalidState            \<comment> \<open>"Invalid state or missing code verifier"\<close>
  | TokenExchangeFailed string  \<comment> \<open>"Token exchange failed: " and the provider's text\<close>
  | NoCredential            \<comment> \<open>"No access token or ID token available"\<close>
  | FetchRejected           \<comment> \<open>the rejection of a \<open>fetch\<close> that nothing catches\<close>
  | JsonRejected            \<comment> \<open>the rejection of \<open>response.json()\<close> that nothing catches\<close>
  | InvalidUrl              \<comment> \<open>the TypeError of \<open>new URL\<close>\<close>

definition getItem :: "api_state \<Rightarrow> string \<Rightarrow> string option" where
  "getItem st k = sessionStorage st k"

definition setItem :: "string \<Rightarrow> string \<Rightarrow> api_state \<Rightarrow> api_state" where
  "setItem k v st = st\<lparr>sessionStorage := (sessionStorage st)(k \<mapsto> v)\<rparr>"

definition removeItem :: "string \<Rightarrow> api_state \<Rightarrow> api_state" where
  "removeItem k st = st\<lparr>sessionStorage := (sessionStorage st)(k := None)\<rparr>"

definition doFetch :: "platform \<Rightarrow> request \<Rightarrow> api_state \<Rightarrow> response option \<times> api_state" where
  "doFetch p r st = (fetch p r, st\<lparr>sent := sent st @ [r]\<rparr>)"

definition getRequest :: "string \<Rightarrow> (string \<times> string) list \<Rightarrow> request" where
  "getRequest u hs = \<lparr>req_url = u, req_method = ''GET'', req_headers = hs, req_body = None\<rparr>"

text \<open>
  \<^verbatim>\<open>
  async function loadCognitoConfig(): Promise<void> {
    if (COGNITO_DOMAIN && COGNITO_CLIENT_ID) return;
    try {
      const response = await fetch(`${API_BASE_URL}/v1/config`);
      if (!response.ok) { throw new Error(...); }
      const config = await response.json();
      COGNITO_DOMAIN = config.cognitoDomain;
      COGNITO_CLIENT_ID = config.cognitoClientId;
      // debugging profile route ...
      const profileResponse = await fetch(`${API_BASE_URL}/v1/profile`);
      const profileData = await profileResponse.json();
    } catch (error) {
      throw new Error("Failed to load Cognito configuration");
    }
  }
  \<close>
  Every throw inside the \<open>try\<close> becomes the one error of the \<open>catch\<close>; the two variables
  keep what was assigned before the throw.
\<close>

definition loadCognitoConfig :: "platform \<Rightarrow> api_state \<Rightarrow> (error + unit) \<times> api_state" where
  "loadCognitoConfig p st =
     (if truthy (COGNITO_DOMAIN st) \<and> truthy (COGNITO_CLIENT_ID st) then (Inr (), st)
      else
        (case doFetch p (getRequest (API_BASE_URL p @ ''/v1/config'') []) st of
           (None, st1) \<Rightarrow> (Inl ConfigLoadFailed, st1)
         | (Some response, st1) \<Rightarrow>
             if \<not> res_ok response then (Inl ConfigLoadFailed, st1)
             else
               (case JSON_parse p (res_body response) of
                  None \<Rightarrow> (Inl ConfigLoadFailed, st1)
                | Some config \<Rightarrow>
                    (case (getProp config ''cognitoDomain'', getProp config ''cognitoClientId'') of
                       (Some d, Some c) \<Rightarrow>
                         (case doFetch p (getRequest (API_BASE_URL p @ ''/v1/profile'') [])
                                 (st1\<lparr>COGNITO_DOMAIN := d, COGNITO_CLIENT_ID := c\<rparr>) of
                            (None, st2) \<Rightarrow> (Inl ConfigLoadFailed, st2)
                          | (Some profileResponse, st2) \<Rightarrow>
                              (case JSON_parse p (res_body profileResponse) of
                                 None \<Rightarrow> (Inl ConfigLoadFailed, st2)
                               | Some profileData \<Rightarrow> (Inr (), st2)))
                     | _ \<Rightarrow> (Inl ConfigLoadFailed, st1)))))"

definition getRedirectUri :: "platform \<Rightarrow> string" where
  "getRedirectUri p = location_origin p @ ''/callback''"

text \<open>\<open>byte.toString(16).padStart(2, "0")\<close>: two hexadecimal digits in lower case.\<close>

definition hexDigits :: string where
  "hexDigits = ''0123456789abcdef''"

definition byteToHex :: "byte \<Rightarrow> string" where
  "byteToHex b = [hexDigits ! (unat b div 16), hexDigits ! (unat b mod 16)]"

text \<open>
  \<open>generateState\<close>, given the sixteen bytes that \<open>crypto.getRandomValues\<close> wrote into the
  array.
\<close>

definition generateState :: "byte list \<Rightarrow> string" where
  "generateState array = concat (map byteToHex array)"

text \<open>
  \<open>startLogin\<close>. The random bytes of the state, and the verifier and the challenge function
  of the UI's \<open>utils/pkce\<close>, are arguments. The three session fields are stored before the
  URL is built.
\<close>

definition startLogin ::
  "platform \<Rightarrow> byte list \<Rightarrow> string \<Rightarrow> (string \<Rightarrow> string) \<Rightarrow> api_state
     \<Rightarrow> (error + unit) \<times> api_state" where
  "startLogin p array codeVerifier challengeOf st =
     (case loadCognitoConfig p st of
        (Inl e, st1) \<Rightarrow> (Inl e, st1)
      | (Inr u, st1) \<Rightarrow>
          if \<not> truthy (COGNITO_DOMAIN st1) \<or> \<not> truthy (COGNITO_CLIENT_ID st1)
          then (Inl ConfigNotAvailable, st1)
          else
            (let state = generateState array;
                 codeChallenge = challengeOf codeVerifier;
                 st2 = setItem REDIRECT_URI_KEY (getRedirectUri p)
                         (setItem STATE_KEY state
                           (setItem CODE_VERIFIER_KEY codeVerifier st1))
             in case urlToString p (toStr p (COGNITO_DOMAIN st1) @ ''/oauth2/authorize'')
                       [(''client_id'', toStr p (COGNITO_CLIENT_ID st1)),
                        (''response_type'', ''code''),
                        (''scope'', ''openid email''),
                        (''redirect_uri'', getRedirectUri p),
                        (''state'', state),
                        (''code_challenge'', codeChallenge),
                        (''code_challenge_method'', ''S256'')] of
                  None \<Rightarrow> (Inl InvalidUrl, st2)
                | Some authUrl \<Rightarrow> (Inr (), st2\<lparr>href := Some authUrl\<rparr>)))"

text \<open>The POST to the provider's token endpoint.\<close>

definition tokenRequest :: "platform \<Rightarrow> api_state \<Rightarrow> string \<Rightarrow> string \<Rightarrow> string \<Rightarrow> request" where
  "tokenRequest p st code redirectUri codeVerifier =
     \<lparr>req_url = toStr p (COGNITO_DOMAIN st) @ ''/oauth2/token'',
      req_method = ''POST'',
      req_headers = [(''content-type'', ''application/x-www-form-urlencoded'')],
      req_body = Some (formEncode p
        [(''grant_type'', ''authorization_code''),
         (''client_id'', toStr p (COGNITO_CLIENT_ID st)),
         (''code'', code),
         (''redirect_uri'', redirectUri),
         (''code_verifier'', codeVerifier)])\<rparr>"

text \<open>
  \<^verbatim>\<open>
  export async function exchangeCodeForTokens(code: string, state: string) {
    await loadCognitoConfig();
    if (!COGNITO_DOMAIN || !COGNITO_CLIENT_ID) {
      throw new Error("Cognito configuration not available");
    }
    const storedState = sessionStorage.getItem(STATE_KEY);
    const codeVerifier = sessionStorage.getItem(CODE_VERIFIER_KEY);
    const storedRedirectUri = sessionStorage.getItem(REDIRECT_URI_KEY);
    if (!storedState || state !== storedState || !codeVerifier) {
      throw new Error("Invalid state or missing code verifier");
    }
    const redirectUri = storedRedirectUri || getRedirectUri();
    const tokenParams = new URLSearchParams({...});
    const response = await fetch(`${COGNITO_DOMAIN}/oauth2/token`, {...});
    if (!response.ok) {
      const errorText = await response.text();
      throw new Error(`Token exchange failed: ${errorText}`);
    }
    const tokens = await response.json();
    sessionStorage.removeItem(CODE_VERIFIER_KEY);
    sessionStorage.removeItem(STATE_KEY);
    sessionStorage.removeItem(REDIRECT_URI_KEY);
    return tokens;
  }
  \<close>
\<close>

definition exchangeCodeForTokens ::
  "platform \<Rightarrow> string \<Rightarrow> string \<Rightarrow> api_state \<Rightarrow> (error + jsval) \<times> api_state" where
  "exchangeCodeForTokens p code state st =
     (case loadCognitoConfig p st of
        (Inl e, st1) \<Rightarrow> (Inl e, st1)
      | (Inr u, st1) \<Rightarrow>
          if \<not> truthy (COGNITO_DOMAIN st1) \<or> \<not> truthy (COGNITO_CLIENT_ID st1)
          then (Inl ConfigNotAvailable, st1)
          else
            (let storedState = getItem st1 STATE_KEY;
                 codeVerifier = getItem st1 CODE_VERIFIER_KEY;
                 storedRedirectUri = getItem st1 REDIRECT_URI_KEY
             in if \<not> truthyStr storedState \<or> Some state \<noteq> storedState
                   \<or> \<not> truthyStr codeVerifier
                then (Inl InvalidState, st1)
                else
                  (case codeVerifier of
                     None \<Rightarrow> (Inl InvalidState, st1)
                   | Some verifier \<Rightarrow>
                       (let redirectUri = strOrElse storedRedirectUri (getRedirectUri p)
                        in case doFetch p (tokenRequest p st1 code redirectUri verifier) st1 of
                             (None, st2) \<Rightarrow> (Inl FetchRejected, st2)
                           | (Some response, st2) \<Rightarrow>
                               if \<not> res_ok response
                               then (Inl (TokenExchangeFailed (res_body response)), st2)
                               else
                                 (case JSON_parse p (res_body response) of
                                    None \<Rightarrow> (Inl JsonRejected, st2)
                                  | Some tokens \<Rightarrow>
                                      (Inr tokens,
                                       removeItem REDIRECT_URI_KEY
                                         (removeItem STATE_KEY
                                           (removeItem CODE_VERIFIER_KEY st2))))))))"

definition storeAccessToken :: "string \<Rightarrow> api_state \<Rightarrow> api_state" where
  "storeAccessToken token st = setItem TOKEN_STORAGE_KEY token st"

definition storeIdToken :: "string \<Rightarrow> api_state \<Rightarrow> api_state" where
  "storeIdToken token st = setItem ID_TOKEN_STORAGE_KEY token st"

definition getAccessToken :: "api_state \<Rightarrow> string option" where
  "getAccessToken st = getItem st TOKEN_STORAGE_KEY"

definition getIdToken :: "api_state \<Rightarrow> string option" where
  "getIdToken st = getItem st ID_TOKEN_STORAGE_KEY"

definition clearTokens :: "api_state \<Rightarrow> api_state" where
  "clearTokens st =
     removeItem REDIRECT_URI_KEY
       (removeItem STATE_KEY
         (removeItem CODE_VERIFIER_KEY
           (removeItem ID_TOKEN_STORAGE_KEY
             (removeItem TOKEN_STORAGE_KEY st))))"

text \<open>
  \<^verbatim>\<open>
  export async function getCurrentUser() {
    const token = getIdToken() || getAccessToken();
    if (!token) { return null; }
    try {
      const res = await fetch(`${API_BASE_URL}/v1/profile`, {
        headers: { Authorization: `Bearer ${token}` },
      });
      if (!res.ok) { ...; return null; }
      const data = await res.json();
      return data.authenticated ? data.user : null;
    } catch (error) { return null; }
  }
  \<close>
  The function never rejects: every throw inside the \<open>try\<close> gives \<open>null\<close>.
\<close>

definition getCurrentUser :: "platform \<Rightarrow> api_state \<Rightarrow> jsval \<times> api_state" where
  "getCurrentUser p st =
     (case orStr (getIdToken st) (getAccessToken st) of
        None \<Rightarrow> (JNull, st)
      | Some token \<Rightarrow>
          if token = [] then (JNull, st)
          else
            (case doFetch p (getRequest (API_BASE_URL p @ ''/v1/profile'')
                               [(''authorization'', ''Bearer '' @ token)]) st of
               (None, st1) \<Rightarrow> (JNull, st1)
             | (Some res, st1) \<Rightarrow>
                 if \<not> res_ok res then (JNull, st1)
                 else
                   (case JSON_parse p (res_body res) of
                      None \<Rightarrow> (JNull, st1)
                    | Some data \<Rightarrow>
                        (case getProp data ''authenticated'' of
                           None \<Rightarrow> (JNull, st1)
                         | Some a \<Rightarrow>
                             if truthy a
                             then (case getProp data ''user'' of
                                     None \<Rightarrow> (JNull, st1)
                                   | Some user \<Rightarrow> (user, st1))
                             else (JNull, st1)))))"

text \<open>\<open>headers.set(name, value)\<close> on a \<open>Headers\<close> object.\<close>

fun headersSet :: "string \<Rightarrow> string \<Rightarrow> (string \<times> string) list \<Rightarrow> (string \<times> string) list" where
  "headersSet k v [] = [(k, v)]"
| "headersSet k v ((k', v') # hs) =
     (if k' = k then (k, v) # hs else (k', v') # headersSet k v hs)"

text \<open>
  \<^verbatim>\<open>
  export async function authenticatedFetch(url: string, options: RequestInit = {}) {
    const token = getIdToken() || getAccessToken();
    if (!token) { throw new Error("No access token or ID token available"); }
    const headers = new Headers(options.headers);
    headers.set("Authorization", `Bearer ${token}`);
    return fetch(url, { ...options, headers });
  }
  \<close>
  The options are a request without its URL: the method, the headers and the body.
\<close>

definition authenticatedFetch ::
  "platform \<Rightarrow> string \<Rightarrow> request \<Rightarrow> api_state \<Rightarrow> (error + response) \<times> api_state" where
  "authenticatedFetch p u options st =
     (case orStr (getIdToken st) (getAccessToken st) of
        None \<Rightarrow> (Inl NoCredential, st)
      | Some token \<Rightarrow>
          if token = [] then (Inl NoCredential, st)
          else
            (case doFetch p (options\<lparr>req_url := u,
                               req_headers := headersSet ''authorization'' (''Bearer '' @ token)
                                                (req_headers options)\<rparr>) st of
               (None, st1) \<Rightarrow> (Inl FetchRejected, st1)
             | (Some res, st1) \<Rightarrow> (Inr res, st1)))"

subsection \<open>Notions of the specification about the client\<close>

text \<open>
  The configuration is available to a call: \<open>loadCognitoConfig\<close> returns, and the domain and
  the client id it leaves in the module variables are truthy.
\<close>

definition configAvailable :: "platform \<Rightarrow> api_state \<Rightarrow> bool" where
  "configAvailable p st =
     (case loadCognitoConfig p st of
        (Inl e, st1) \<Rightarrow> False
      | (Inr u, st1) \<Rightarrow> truthy (COGNITO_DOMAIN st1) \<and> truthy (COGNITO_CLIENT_ID st1))"

text \<open>
  "A token whose decoded \<open>exp\<close> is in the past": the payload of the token decodes, as the
  session bootstrap decodes it, to a value whose \<open>exp\<close> is a number below the current time.
\<close>

definition tokenExpired :: "platform \<Rightarrow> string \<Rightarrow> bool" where
  "tokenExpired p token =
     (case decodePayload p token of
        None \<Rightarrow> False
      | Some decoded \<Rightarrow>
          (case getProp decoded ''exp'' of
             Some (JNumber e) \<Rightarrow> e < now p
           | _ \<Rightarrow> False))"

text \<open>The value of the \<open>Authorization\<close> header of a request, if it has one.\<close>

definition authorizationOf :: "request \<Rightarrow> string option" where
  "authorizationOf r = map_of (req_headers r) ''authorization''"

text \<open>The requests a call has given to \<open>fetch\<close>: what the log holds beyond what it held before.\<close>

definition newlySent :: "api_state \<Rightarrow> api_state \<Rightarrow> request list" where
  "newlySent before after = drop (length (sent before)) (sent after)"

section \<open>The identity derived from an ID token (AuthContext.tsx, Callback.tsx)\<close>

text \<open>A property read on a value that is known not to be \<open>null\<close>.\<close>

definition propOf :: "jsval \<Rightarrow> string \<Rightarrow> jsval" where
  "propOf v k = (case getProp v k of None \<Rightarrow> JUndefined | Some x \<Rightarrow> x)"

text \<open>
  The object literal that both \<open>AuthProvider\<close> and \<open>Callback\<close> build from the decoded
  payload:
  \<^verbatim>\<open>
  { sub: decoded.sub,
    email: decoded.email,
    name: decoded.name || decoded.preferred_username || decoded.username,
    groups: decoded['cognito:groups'] || [],
    email_verified: decoded.email_verified }
  \<close>
  \<open>None\<close> when the first property read throws, the payload being \<open>null\<close>.
\<close>

definition userFromClaims :: "jsval \<Rightarrow> jsval option" where
  "userFromClaims decoded =
     (case getProp decoded ''sub'' of
        None \<Rightarrow> None
      | Some sub \<Rightarrow>
          Some (JObject
            [(''sub'', sub),
             (''email'', propOf decoded ''email''),
             (''name'', jsOr (jsOr (propOf decoded ''name'')
                                   (propOf decoded ''preferred_username''))
                             (propOf decoded ''username'')),
             (''groups'', jsOr (propOf decoded ''cognito:groups'') (JArray [])),
             (''email_verified'', propOf decoded ''email_verified'')]))"

section \<open>Session bootstrap (the mount effect of AuthProvider)\<close>

text \<open>
  The state of the provider: the api module with the session storage, and the two React
  states, \<open>user\<close> (\<open>null\<close> at first) and \<open>loading\<close> (\<open>true\<close> at first).
\<close>

record ui_state =
  api :: api_state
  user :: jsval
  loading :: bool

definition mounted :: "(string \<rightharpoonup> string) \<Rightarrow> ui_state" where
  "mounted storage = \<lparr>api = pageLoad storage, user = JNull, loading = True\<rparr>"

text \<open>
  What the synchronous part of the effect leaves to the promise of \<open>getCurrentUser()\<close>:
  nothing, or the call, with \<open>userFromToken\<close> (\<open>null\<close> when only an access token is
  stored).
\<close>

datatype pending = NoCall | ProfileCall jsval

text \<open>\<open>clearTokens(); setLoading(false); return;\<close>\<close>

definition purge :: "ui_state \<Rightarrow> pending \<times> ui_state" where
  "purge st = (NoCall, st\<lparr>api := clearTokens (api st), loading := False\<rparr>)"

text \<open>
  The branch of a truthy ID token:
  \<^verbatim>\<open>
  try {
    const payload = idToken.split('.')[1];
    const decoded = JSON.parse(atob(payload));
    const exp = decoded.exp;
    const now = Math.floor(Date.now() / 1000);
    if (exp && exp < now) { clearTokens(); setLoading(false); return; }
    userFromToken = {...};
    tokenValid = true;
    setUser(userFromToken);
  } catch (error) { clearTokens(); setLoading(false); return; }
  \<close>
\<close>

definition idTokenBranch :: "platform \<Rightarrow> string \<Rightarrow> ui_state \<Rightarrow> pending \<times> ui_state" where
  "idTokenBranch p idToken st =
     (case decodePayload p idToken of
        None \<Rightarrow> purge st
      | Some decoded \<Rightarrow>
          (case getProp decoded ''exp'' of
             None \<Rightarrow> purge st
           | Some exp \<Rightarrow>
               if truthy exp \<and> lessThanNow p exp then purge st
               else
                 (case userFromClaims decoded of
                    None \<Rightarrow> purge st
                  | Some userFromToken \<Rightarrow>
                      (ProfileCall userFromToken, st\<lparr>user := userFromToken\<rparr>))))"

text \<open>
  The branch of a truthy access token without a truthy ID token: the same check of the
  expiry, and no identity from the token.
\<close>

definition accessTokenBranch :: "platform \<Rightarrow> string \<Rightarrow> ui_state \<Rightarrow> pending \<times> ui_state" where
  "accessTokenBranch p accessToken st =
     (case decodePayload p accessToken of
        None \<Rightarrow> purge st
      | Some decoded \<Rightarrow>
          (case getProp decoded ''exp'' of
             None \<Rightarrow> purge st
           | Some exp \<Rightarrow>
               if truthy exp \<and> lessThanNow p exp then purge st
               else (ProfileCall JNull, st)))"

text \<open>
  The synchronous part of the effect. With no truthy token, and in the branch that is left
  when neither \<open>if (idToken)\<close> nor \<open>else if (accessToken)\<close> applies, only
  \<open>setLoading(false)\<close> runs.
\<close>

definition mountSync :: "platform \<Rightarrow> ui_state \<Rightarrow> pending \<times> ui_state" where
  "mountSync p st =
     (let accessToken = getAccessToken (api st);
          idToken = getIdToken (api st)
      in if truthyStr accessToken \<or> truthyStr idToken
         then
           (case (truthyStr idToken, idToken, truthyStr accessToken, accessToken) of
              (True, Some t, _, _) \<Rightarrow> idTokenBranch p t st
            | (False, _, True, Some t) \<Rightarrow> accessTokenBranch p t st
            | _ \<Rightarrow> (NoCall, st\<lparr>loading := False\<rparr>))
         else (NoCall, st\<lparr>loading := False\<rparr>))"

text \<open>
  The continuation of the promise:
  \<^verbatim>\<open>
  getCurrentUser()
    .then((userData) => {
      if (userData) { setUser(userData); }
      else if (userFromToken) { /* keep using the token data */ }
      else { /* user data not available */ }
    })
    .catch((error) => { ... })
    .finally(() => { setLoading(false); });
  \<close>
  \<open>getCurrentUser\<close> never rejects, so the \<open>catch\<close> never runs.
\<close>

definition mountAsync :: "platform \<Rightarrow> pending \<Rightarrow> ui_state \<Rightarrow> ui_state" where
  "mountAsync p pend st =
     (case pend of
        NoCall \<Rightarrow> st
      | ProfileCall userFromToken \<Rightarrow>
          (case getCurrentUser p (api st) of
             (userData, api1) \<Rightarrow>
               if truthy userData
               then st\<lparr>api := api1, user := userData, loading := False\<rparr>
               else st\<lparr>api := api1, loading := False\<rparr>))"

definition mount :: "platform \<Rightarrow> ui_state \<Rightarrow> ui_state" where
  "mount p st = (case mountSync p st of (pend, st1) \<Rightarrow> mountAsync p pend st1)"

text \<open>\<open>authenticated: !!user\<close>\<close>

definition authenticated :: "ui_state \<Rightarrow> bool" where
  "authenticated st = truthy (user st)"

section \<open>The callback page (the identity after the exchange in Callback.tsx)\<close>

text \<open>
  The identity that the continuation of the exchange derives, with the tokens stored:
  \<^verbatim>\<open>
  let user;
  if (tokens.id_token) {
    try {
      const payload = tokens.id_token.split('.')[1];
      const decoded = JSON.parse(atob(payload));
      user = {...};
    } catch { user = await getCurrentUser(); }
  } else { user = await getCurrentUser(); }
  \<close>
  An \<open>id_token\<close> that is truthy and not a string has no \<open>split\<close>: the throw is caught
  and the profile is fetched.
\<close>

definition callbackUser :: "platform \<Rightarrow> jsval \<Rightarrow> ui_state \<Rightarrow> jsval \<times> ui_state" where
  "callbackUser p id_token st =
     (let fromProfile = (case getCurrentUser p (api st) of
                           (u, api1) \<Rightarrow> (u, st\<lparr>api := api1\<rparr>))
      in if truthy id_token
         then (case id_token of
                 JString t \<Rightarrow>
                   (case decodePayload p t of
                      None \<Rightarrow> fromProfile
                    | Some decoded \<Rightarrow>
                        (case userFromClaims decoded of
                           None \<Rightarrow> fromProfile
                         | Some u \<Rightarrow> (u, st)))
               | _ \<Rightarrow> fromProfile)
         else fromProfile)"

section \<open>The services: requests, responses and what the process takes from outside\<close>

text \<open>
  Modelled from the spec: the type \<open>AuthUser\<close> of \<open>req.auth\<close>, declared in the missing
  \<open>middleware/auth\<close>. "Authenticated Identity (derived, request-scoped): \<open>subject\<close>
  (stable user identifier), \<open>email\<close>, \<open>groups\<close> (set of strings [...])"; the profile
  controller reads its fields \<open>sub\<close>, \<open>email\<close> and \<open>groups\<close>.
\<close>

record AuthUser =
  sub :: string
  email :: string
  groups :: "string list"

text \<open>
  An Express request as the handlers read it: the headers (names in lower case, as Node
  gives them), \<open>req.apiGateway\<close> and \<open>req.auth\<close>. \<open>apiGateway = Some rc\<close> stands for the
  object \<open>{ event: { requestContext: rc } }\<close>; both fields are absent on a request that
  comes in.
\<close>

record srv_request =
  headers :: "(string \<times> string) list"
  apiGateway :: "jsval option"
  auth :: "AuthUser option"

definition incoming :: "(string \<times> string) list \<Rightarrow> srv_request" where
  "incoming hs = \<lparr>headers = hs, apiGateway = None, auth = None\<rparr>"

record srv_response =
  srv_status :: nat
  srv_headers :: "(string \<times> string) list"
  srv_body :: jsval

text \<open>
  What a service takes from outside, as parameters of the model:
  \<^item> \<open>srv_JSON_parse\<close>: \<open>JSON.parse\<close>, \<open>None\<close> when it throws;
  \<^item> \<open>urlOrigin\<close>: \<open>new URL(s).origin\<close>, \<open>None\<close> when the constructor throws;
  \<^item> \<open>ssmGet\<close>: the parameter store; \<open>None\<close> when \<open>send\<close> rejects, \<open>Some None\<close>
    when the answer has no \<open>Parameter.Value\<close>;
  \<^item> \<open>region\<close>: \<open>process.env.AWS_REGION || process.env.AWS_DEFAULT_REGION\<close>;
  \<^item> \<open>isoTime\<close>: \<open>new Date().toISOString()\<close>.
\<close>

record server_env =
  srv_JSON_parse :: "string \<Rightarrow> jsval option"
  urlOrigin :: "string \<Rightarrow> string option"
  ssmGet :: "string \<Rightarrow> string option option"
  region :: "string option"
  isoTime :: string

section \<open>The request-context middleware (app.ts)\<close>

text \<open>The assignment \<open>obj.k = v\<close> on a value that has properties.\<close>

fun assocSet :: "string \<Rightarrow> jsval \<Rightarrow> (string \<times> jsval) list \<Rightarrow> (string \<times> jsval) list" where
  "assocSet k v [] = [(k, v)]"
| "assocSet k v ((k', v') # kvs) =
     (if k' = k then (k, v) # kvs else (k', v') # assocSet k v kvs)"

definition setProp :: "jsval \<Rightarrow> string \<Rightarrow> jsval \<Rightarrow> jsval" where
  "setProp obj k v = (case obj of JObject kvs \<Rightarrow> JObject (assocSet k v kvs) | _ \<Rightarrow> obj)"

text \<open>
  \<^verbatim>\<open>
  app.use((req: any, _res, next) => {
    const requestContextHeader = req.headers['x-amzn-request-context'];
    if (requestContextHeader) {
      try {
        const requestContext = JSON.parse(requestContextHeader);
        req.apiGateway = { event: { requestContext: requestContext } };
        if ((requestContext as any).authorizer) {
          req.apiGateway.event.requestContext.authorizer = (requestContext as any).authorizer;
        }
      } catch (error) {
        console.error("app.ts: Error parsing x-amzn-request-context header:", error);
      }
    }
    next();
  });
  \<close>
  The result is the request that \<open>next()\<close> passes on. A throw of \<open>JSON.parse\<close> leaves the
  request as it came; the read of \<open>authorizer\<close> on a parsed \<open>null\<close> throws after
  \<open>req.apiGateway\<close> is set.
\<close>

definition requestContextMiddleware :: "server_env \<Rightarrow> srv_request \<Rightarrow> srv_request" where
  "requestContextMiddleware env req =
     (case map_of (headers req) ''x-amzn-request-context'' of
        None \<Rightarrow> req
      | Some requestContextHeader \<Rightarrow>
          if requestContextHeader = [] then req
          else
            (case srv_JSON_parse env requestContextHeader of
               None \<Rightarrow> req
             | Some requestContext \<Rightarrow>
                 (case getProp requestContext ''authorizer'' of
                    None \<Rightarrow> req\<lparr>apiGateway := Some requestContext\<rparr>
                  | Some authorizer \<Rightarrow>
                      if truthy authorizer
                      then req\<lparr>apiGateway :=
                             Some (setProp requestContext ''authorizer'' authorizer)\<rparr>
                      else req\<lparr>apiGateway := Some requestContext\<rparr>)))"

section \<open>The authorization middleware (middleware/auth)\<close>

text \<open>
  \<open>middleware/auth\<close> (\<open>attachAuth\<close>, \<open>requireAuth\<close>, \<open>requireGroup\<close>, \<open>AuthUser\<close>) is
  imported by \<open>routes/adminRoutes.ts\<close> and \<open>utils/types.ts\<close> and is not among the
  sources: this section follows section 4.3 of the specification.
\<close>

text \<open>
  Modelled from the spec: the two failures of the missing middleware, "an \<open>Unauthorized\<close>
  outcome (HTTP 401 [...])" and "\<open>Forbidden\<close> (HTTP 403)".
\<close>

datatype failure = Unauthorized | Forbidden

text \<open>Modelled from the spec: the HTTP status of each failure of the missing middleware.\<close>

fun httpStatus :: "failure \<Rightarrow> nat" where
  "httpStatus Unauthorized = 401"
| "httpStatus Forbidden = 403"

text \<open>
  Modelled from the spec: the strings of "a list of strings", for the normalization that
  the missing \<open>attachAuth\<close> does; \<open>None\<close> when an element is not a string.
\<close>

fun stringsOf :: "jsval list \<Rightarrow> string list option" where
  "stringsOf [] = Some []"
| "stringsOf (JString s # vs) = (case stringsOf vs of None \<Rightarrow> None | Some ss \<Rightarrow> Some (s # ss))"
| "stringsOf (v # vs) = None"

text \<open>
  Modelled from the spec: the normalization of the missing \<open>attachAuth\<close>. The
  \<open>cognito:groups\<close> field "may be a single string or a list of strings, normalized to a
  set of strings". The set is kept as a list without repetitions. A field that is absent
  gives no groups; any other value is not well-formed.
\<close>

fun normalizeGroups :: "jsval \<Rightarrow> string list option" where
  "normalizeGroups JUndefined = Some []"
| "normalizeGroups (JString s) = Some [s]"
| "normalizeGroups (JArray vs) = map_option remdups (stringsOf vs)"
| "normalizeGroups v = None"

text \<open>
  Modelled from the spec: what the missing \<open>attachAuth\<close> reads, "a structured
  request-context object forwarded by the gateway (containing an \<open>authorizer.claims\<close>
  map [...])"; \<open>None\<close> when the object or its \<open>authorizer\<close> is not there.
\<close>

definition claimsOf :: "srv_request \<Rightarrow> jsval option" where
  "claimsOf req =
     (case apiGateway req of
        None \<Rightarrow> None
      | Some requestContext \<Rightarrow>
          (case getProp requestContext ''authorizer'' of
             None \<Rightarrow> None
           | Some authorizer \<Rightarrow> getProp authorizer ''claims''))"

text \<open>
  Modelled from the spec: the identity that the missing \<open>attachAuth\<close> derives from the
  claims, "a normalized \<open>{sub, email, groups}\<close> identity", when they are "present and
  well-formed". Well-formed is read as: the claims are an object, \<open>sub\<close> and \<open>email\<close>
  are strings, and the groups normalize.
\<close>

definition identityOf :: "jsval \<Rightarrow> AuthUser option" where
  "identityOf claims =
     (case claims of
        JObject kvs \<Rightarrow>
          (case (propOf claims ''sub'', propOf claims ''email'',
                 normalizeGroups (propOf claims ''cognito:groups'')) of
             (JString s, JString e, Some gs) \<Rightarrow> Some \<lparr>sub = s, email = e, groups = gs\<rparr>
           | _ \<Rightarrow> None)
      | _ \<Rightarrow> None)"

text \<open>
  Modelled from the spec: the missing \<open>attachAuth\<close>. "If present and well-formed, attaches
  a normalized \<open>{sub, email, groups}\<close> identity to the request; otherwise leaves it
  absent. Never throws - absence is a legitimate state checked downstream."
\<close>

definition attachAuth :: "srv_request \<Rightarrow> srv_request" where
  "attachAuth req =
     (case claimsOf req of
        None \<Rightarrow> req
      | Some claims \<Rightarrow>
          (case identityOf claims of
             None \<Rightarrow> req
           | Some identity \<Rightarrow> req\<lparr>auth := Some identity\<rparr>))"

text \<open>
  Modelled from the spec: the missing \<open>requireAuth\<close> "fails the request with an
  \<open>Unauthorized\<close> outcome (HTTP 401, JSON body \<open>{error: "Authentication required"}\<close>)
  if no identity was attached; otherwise passes through". \<open>Inr\<close> is the request that
  passes through; of the failure the model keeps the outcome and its status.
\<close>

definition requireAuth :: "srv_request \<Rightarrow> failure + srv_request" where
  "requireAuth req = (case auth req of None \<Rightarrow> Inl Unauthorized | Some identity \<Rightarrow> Inr req)"

text \<open>
  Modelled from the spec: the missing \<open>requireGroup(name)\<close> "fails with \<open>Forbidden\<close>
  (HTTP 403) if the attached identity's group set does not contain \<open>name\<close>; otherwise
  passes through". A request with no identity has no group.
\<close>

definition requireGroup :: "string \<Rightarrow> srv_request \<Rightarrow> failure + srv_request" where
  "requireGroup name req =
     (case auth req of
        None \<Rightarrow> Inl Forbidden
      | Some identity \<Rightarrow> if name \<in> set (groups identity) then Inr req else Inl Forbidden)"

section \<open>The admin routes (routes/adminRoutes.ts)\<close>

datatype outcome = Rejected failure | Replied srv_response

definition outcomeStatus :: "outcome \<Rightarrow> nat" where
  "outcomeStatus out = (case out of Rejected f \<Rightarrow> httpStatus f | Replied r \<Rightarrow> srv_status r)"

text \<open>\<open>res.json(body)\<close> with the status 200 that Express starts from.\<close>

definition replyJson :: "nat \<Rightarrow> (string \<times> string) list \<Rightarrow> jsval \<Rightarrow> srv_response" where
  "replyJson code hs body = \<lparr>srv_status = code, srv_headers = hs, srv_body = body\<rparr>"

definition ping :: "server_env \<Rightarrow> srv_response" where
  "ping env = replyJson 200 []
     (JObject [(''status'', JString ''ok''),
               (''message'', JString ''Admin endpoint accessible''),
               (''timestamp'', JString (isoTime env))])"

text \<open>
  \<^verbatim>\<open>
  router.use(attachAuth, requireAuth, requireGroup("administrators"));
  router.get("/ping", (_req, res) => { res.json({...}); });
  \<close>
  The three middlewares in order, then the handler of \<open>GET /ping\<close>.
\<close>

definition adminPing :: "server_env \<Rightarrow> srv_request \<Rightarrow> outcome" where
  "adminPing env req =
     (case requireAuth (attachAuth req) of
        Inl f \<Rightarrow> Rejected f
      | Inr req1 \<Rightarrow>
          (case requireGroup ''administrators'' req1 of
             Inl f \<Rightarrow> Rejected f
           | Inr req2 \<Rightarrow> Replied (ping env)))"

section \<open>The profile controller (controllers/profileController.ts)\<close>

text \<open>
  \<^verbatim>\<open>
  const auth = (req as any).auth;
  if (auth) {
    res.json({ authenticated: true,
               user: { sub: auth.sub, email: auth.email, groups: auth.groups },
               status: "ok", message: "Profile retrieved successfully",
               timestamp: new Date().toISOString() });
  } else {
    res.status(401).json({ error: "Authentication required",
                           debug: "req.auth was not set by middleware" });
  }
  \<close>
\<close>

definition getProfile :: "server_env \<Rightarrow> srv_request \<Rightarrow> srv_response" where
  "getProfile env req =
     (case auth req of
        Some identity \<Rightarrow>
          replyJson 200 []
            (JObject [(''authenticated'', JBool True),
                      (''user'', JObject [(''sub'', JString (sub identity)),
                                          (''email'', JString (email identity)),
                                          (''groups'', JArray (map JString (groups identity)))]),
                      (''status'', JString ''ok''),
                      (''message'', JString ''Profile retrieved successfully''),
                      (''timestamp'', JString (isoTime env))])
      | None \<Rightarrow>
          replyJson 401 []
            (JObject [(''error'', JString ''Authentication required''),
                      (''debug'', JString ''req.auth was not set by middleware'')]))"

section \<open>The configuration of a service (utils/config.ts) and its endpoint\<close>

record srv_config =
  cfg_COGNITO_DOMAIN :: string
  cfg_CLIENT_ID :: string
  cfg_USER_POOL_ID :: string
  cfg_COGNITO_REGION :: string

definition initialConfig :: srv_config where
  "initialConfig =
     \<lparr>cfg_COGNITO_DOMAIN = [], cfg_CLIENT_ID = [], cfg_USER_POOL_ID = [],
      cfg_COGNITO_REGION = []\<rparr>"

fun stripPrefix :: "string \<Rightarrow> string \<Rightarrow> string option" where
  "stripPrefix [] s = Some s"
| "stripPrefix (c # cs) [] = None"
| "stripPrefix (c # cs) (x # xs) = (if c = x then stripPrefix cs xs else None)"

text \<open>
  \<open>s.match(/\.auth\.([^.]+)\.amazoncognito\.com/)\<close>: the group of the leftmost match.
  After \<open>.auth.\<close> the group takes every character up to the next dot, and no shorter
  group can be followed by a dot.
\<close>

definition matchHere :: "string \<Rightarrow> string option" where
  "matchHere s =
     (case stripPrefix ''.auth.'' s of
        None \<Rightarrow> None
      | Some rest \<Rightarrow>
          (let grp = takeWhile (\<lambda>c. c \<noteq> CHR ''.'') rest;
               after = dropWhile (\<lambda>c. c \<noteq> CHR ''.'') rest
           in if grp \<noteq> [] \<and> stripPrefix ''.amazoncognito.com'' after \<noteq> None
              then Some grp else None))"

fun domainMatch :: "string \<Rightarrow> string option" where
  "domainMatch [] = matchHere []"
| "domainMatch (c # cs) =
     (case matchHere (c # cs) of Some g \<Rightarrow> Some g | None \<Rightarrow> domainMatch cs)"

text \<open>\<open>(await ssmClient.send(...)).Parameter?.Value ?? ""\<close>\<close>

definition valueOrEmpty :: "string option \<Rightarrow> string" where
  "valueOrEmpty v = (case v of None \<Rightarrow> [] | Some s \<Rightarrow> s)"

datatype config_error = ConfigurationFailed | JwtConfigNotLoaded | UrlInvalid

text \<open>
  \<^verbatim>\<open>
  export async function loadConfig() {
    if (COGNITO_DOMAIN) return;
    try {
      const clientId = (await ssmClient.send(...)).Parameter?.Value ?? "";
      const cognitoDomain = ...;
      const userPoolId = ...;
      CLIENT_ID = clientId; COGNITO_DOMAIN = cognitoDomain; USER_POOL_ID = userPoolId;
      const domainMatch = cognitoDomain.match(/\.auth\.([^.]+)\.amazoncognito\.com/);
      COGNITO_REGION = domainMatch ? domainMatch[1] : (region || "");
    } catch { throw new Error("Failed to load configuration"); }
  }
  \<close>
\<close>

definition loadConfig :: "server_env \<Rightarrow> srv_config \<Rightarrow> (config_error + unit) \<times> srv_config" where
  "loadConfig env cfg =
     (if cfg_COGNITO_DOMAIN cfg \<noteq> [] then (Inr (), cfg)
      else
        (case ssmGet env ''/cognito/client-id'' of
           None \<Rightarrow> (Inl ConfigurationFailed, cfg)
         | Some c \<Rightarrow>
             (case ssmGet env ''/cognito/domain'' of
                None \<Rightarrow> (Inl ConfigurationFailed, cfg)
              | Some d \<Rightarrow>
                  (case ssmGet env ''/cognito/user-pool-id'' of
                     None \<Rightarrow> (Inl ConfigurationFailed, cfg)
                   | Some u \<Rightarrow>
                       (Inr (),
                        \<lparr>cfg_COGNITO_DOMAIN = valueOrEmpty d,
                         cfg_CLIENT_ID = valueOrEmpty c,
                         cfg_USER_POOL_ID = valueOrEmpty u,
                         cfg_COGNITO_REGION =
                           (case domainMatch (valueOrEmpty d) of
                              Some g \<Rightarrow> g
                            | None \<Rightarrow> strOrElse (region env) [])\<rparr>)))))"

definition getCognitoConfig :: "srv_config \<Rightarrow> string \<times> string" where
  "getCognitoConfig cfg = (cfg_COGNITO_DOMAIN cfg, cfg_CLIENT_ID cfg)"

text \<open>
  \<open>getJwtConfig\<close>, of which the endpoint reads the region: it throws when the user pool id
  or the region is empty.
\<close>

definition getJwtConfig :: "srv_config \<Rightarrow> config_error + string" where
  "getJwtConfig cfg =
     (if cfg_USER_POOL_ID cfg = [] \<or> cfg_COGNITO_REGION cfg = [] then Inl JwtConfigNotLoaded
      else Inr (cfg_COGNITO_REGION cfg))"

definition corsHeaders :: "(string \<times> string) list" where
  "corsHeaders =
     [(''Access-Control-Allow-Origin'', ''*''),
      (''Access-Control-Allow-Methods'', ''GET,POST,PUT,DELETE,OPTIONS''),
      (''Access-Control-Allow-Headers'', ''Content-Type,Authorization'')]"

definition configFailure :: srv_response where
  "configFailure =
     replyJson 500 corsHeaders (JObject [(''error'', JString ''Failed to load configuration'')])"

definition configReply :: "srv_config \<Rightarrow> string \<Rightarrow> string \<Rightarrow> srv_response" where
  "configReply cfg jwtRegion redirectUri =
     replyJson 200 corsHeaders
       (JObject [(''cognitoDomain'', JString (fst (getCognitoConfig cfg))),
                 (''cognitoClientId'', JString (snd (getCognitoConfig cfg))),
                 (''cognitoRegion'', JString jwtRegion),
                 (''redirectUri'', JString redirectUri)])"

text \<open>
  \<^verbatim>\<open>
  export async function getConfig(req: Request, res: Response) {
    try {
      await loadConfig();
      const config = getCognitoConfig();
      const jwtConfig = getJwtConfig();
      const origin = req.headers.origin || req.headers.referer || "";
      const redirectUri = origin ? `${new URL(origin).origin}/callback` : "";
      res.header(...);
      res.json({ cognitoDomain: config.domain, cognitoClientId: config.clientId,
                 cognitoRegion: jwtConfig.region, redirectUri });
    } catch {
      res.header(...);
      res.status(500).json({ error: "Failed to load configuration" });
    }
  }
  \<close>
\<close>

definition getConfig :: "server_env \<Rightarrow> srv_config \<Rightarrow> srv_request \<Rightarrow> srv_response \<times> srv_config" where
  "getConfig env cfg req =
     (case loadConfig env cfg of
        (Inl e, cfg1) \<Rightarrow> (configFailure, cfg1)
      | (Inr u, cfg1) \<Rightarrow>
          (case getJwtConfig cfg1 of
             Inl e \<Rightarrow> (configFailure, cfg1)
           | Inr jwtRegion \<Rightarrow>
               (let origin = strOrElse (orStr (map_of (headers req) ''origin'')
                                              (map_of (headers req) ''referer'')) []
                in if origin \<noteq> []
                   then (case urlOrigin env origin of
                           None \<Rightarrow> (configFailure, cfg1)
                         | Some originOfUrl \<Rightarrow>
                             (configReply cfg1 jwtRegion (originOfUrl @ ''/callback''), cfg1))
                   else (configReply cfg1 jwtRegion [], cfg1))))"

section \<open>Concrete inputs for the examples\<close>

text \<open>
  A small world in which the definitions can be run: an API at \<open>https://api.example\<close>, an
  identity provider at \<open>https://idp.example\<close>, the application at \<open>https://app.example\<close>,
  and the clock at 1000 seconds. JSON texts are written with \<open>quoted\<close> for the double
  quotes around their strings.
\<close>

definition quoted :: "string \<Rightarrow> string" where
  "quoted s = CHR 0x22 # s @ [CHR 0x22]"

definition configText :: string where
  "configText = ''{'' @ quoted ''cognitoDomain'' @ '':'' @ quoted ''https://idp.example'' @ '',''
     @ quoted ''cognitoClientId'' @ '':'' @ quoted ''client1'' @ ''}''"

definition profileText :: string where
  "profileText = ''{'' @ quoted ''authenticated'' @ '':true,'' @ quoted ''user'' @ '':{''
     @ quoted ''sub'' @ '':'' @ quoted ''u1'' @ ''}}''"

definition tokensText :: string where
  "tokensText = ''{'' @ quoted ''access_token'' @ '':'' @ quoted ''at1'' @ '',''
     @ quoted ''expires_in'' @ '':3600}''"

text \<open>The payload \<open>{"exp":100}\<close> and an ID token that carries it, in base64.\<close>

definition expiredText :: string where
  "expiredText = ''{'' @ quoted ''exp'' @ '':100}''"

definition expiredToken :: string where
  "expiredToken = ''eyJhbGciOiJub25lIn0.eyJleHAiOjEwMH0.sig''"

text \<open>
  The payloads \<open>{"sub":"u1","exp":100}\<close>, \<open>{"sub":"u1","exp":0}\<close> and
  \<open>{"sub":"u1","exp":2000}\<close>, and ID tokens that carry them.
\<close>

definition pastText :: string where
  "pastText = ''{'' @ quoted ''sub'' @ '':'' @ quoted ''u1'' @ '','' @ quoted ''exp'' @ '':100}''"

definition pastToken :: string where
  "pastToken = ''eyJhbGciOiJub25lIn0.eyJzdWIiOiJ1MSIsImV4cCI6MTAwfQ.sig''"

definition zeroText :: string where
  "zeroText = ''{'' @ quoted ''sub'' @ '':'' @ quoted ''u1'' @ '','' @ quoted ''exp'' @ '':0}''"

definition zeroToken :: string where
  "zeroToken = ''eyJhbGciOiJub25lIn0.eyJzdWIiOiJ1MSIsImV4cCI6MH0.sig''"

definition futureText :: string where
  "futureText = ''{'' @ quoted ''sub'' @ '':'' @ quoted ''u1'' @ '','' @ quoted ''exp'' @ '':2000}''"

definition futureToken :: string where
  "futureToken = ''eyJhbGciOiJub25lIn0.eyJzdWIiOiJ1MSIsImV4cCI6MjAwMH0.sig''"

definition exampleJson :: "(string \<times> jsval) list" where
  "exampleJson =
     [(configText, JObject [(''cognitoDomain'', JString ''https://idp.example''),
                            (''cognitoClientId'', JString ''client1'')]),
      (profileText, JObject [(''authenticated'', JBool True),
                             (''user'', JObject [(''sub'', JString ''u1'')])]),
      (tokensText, JObject [(''access_token'', JString ''at1''), (''expires_in'', JNumber 3600)]),
      (expiredText, JObject [(''exp'', JNumber 100)]),
      (pastText, JObject [(''sub'', JString ''u1''), (''exp'', JNumber 100)]),
      (zeroText, JObject [(''sub'', JString ''u1''), (''exp'', JNumber 0)]),
      (futureText, JObject [(''sub'', JString ''u1''), (''exp'', JNumber 2000)])]"

definition exampleBase64 :: "(string \<times> string) list" where
  "exampleBase64 =
     [(''eyJleHAiOjEwMH0'', expiredText),
      (''eyJzdWIiOiJ1MSIsImV4cCI6MTAwfQ'', pastText),
      (''eyJzdWIiOiJ1MSIsImV4cCI6MH0'', zeroText),
      (''eyJzdWIiOiJ1MSIsImV4cCI6MjAwMH0'', futureText)]"

definition answer :: "nat \<Rightarrow> string \<Rightarrow> response" where
  "answer code text = \<lparr>res_status = code, res_statusText = [], res_body = text\<rparr>"

definition exampleNetwork :: "(string \<times> response) list" where
  "exampleNetwork =
     [(''https://api.example/v1/config'', answer 200 configText),
      (''https://api.example/v1/profile'', answer 200 profileText),
      (''https://idp.example/oauth2/token'', answer 200 tokensText)]"

definition examplePlatform :: platform where
  "examplePlatform =
     \<lparr>JSON_parse = map_of exampleJson,
      atob = map_of exampleBase64,
      String_of = (\<lambda>v. []),
      Number_of = (\<lambda>v. None),
      formEncode = (\<lambda>kvs. concat (map (\<lambda>(k, v). k @ ''='' @ v @ ''&'') kvs)),
      urlToString = (\<lambda>base kvs. Some (base @ ''?'' @ concat (map (\<lambda>(k, v). k @ ''='' @ v @ ''&'') kvs))),
      fetch = (\<lambda>r. map_of exampleNetwork (req_url r)),
      API_BASE_URL = ''https://api.example'',
      location_origin = ''https://app.example'',
      now = 1000\<rparr>"

text \<open>The same world with the network down, and with a provider that refuses the code.\<close>

definition offlinePlatform :: platform where
  "offlinePlatform = examplePlatform\<lparr>fetch := (\<lambda>r. None)\<rparr>"

definition refusingPlatform :: platform where
  "refusingPlatform =
     examplePlatform\<lparr>fetch := (\<lambda>r. if req_url r = ''https://idp.example/oauth2/token''
                                      then Some (answer 400 ''invalid_grant'')
                                      else map_of exampleNetwork (req_url r))\<rparr>"

text \<open>
  The session storage a login attempt leaves for the callback, the same without the
  redirect URI, and a storage that holds only the expired ID token.
\<close>

definition pendingStorage :: "string \<rightharpoonup> string" where
  "pendingStorage =
     [CODE_VERIFIER_KEY \<mapsto> ''verifier1'', STATE_KEY \<mapsto> ''state1'',
      REDIRECT_URI_KEY \<mapsto> ''https://app.example/callback'']"

definition pendingNoRedirect :: "string \<rightharpoonup> string" where
  "pendingNoRedirect = [CODE_VERIFIER_KEY \<mapsto> ''verifier1'', STATE_KEY \<mapsto> ''state1'']"

definition expiredStorage :: "string \<rightharpoonup> string" where
  "expiredStorage = [ID_TOKEN_STORAGE_KEY \<mapsto> expiredToken]"

text \<open>
  Storages that hold one ID token, and the same world with a profile endpoint that answers
  with status 503.
\<close>

definition pastStorage :: "string \<rightharpoonup> string" where
  "pastStorage = [ID_TOKEN_STORAGE_KEY \<mapsto> pastToken, TOKEN_STORAGE_KEY \<mapsto> ''at1'']"

definition zeroStorage :: "string \<rightharpoonup> string" where
  "zeroStorage = [ID_TOKEN_STORAGE_KEY \<mapsto> zeroToken, TOKEN_STORAGE_KEY \<mapsto> ''at1'']"

definition futureStorage :: "string \<rightharpoonup> string" where
  "futureStorage = [ID_TOKEN_STORAGE_KEY \<mapsto> futureToken, TOKEN_STORAGE_KEY \<mapsto> ''at1'']"

definition failingProfilePlatform :: platform where
  "failingProfilePlatform =
     examplePlatform\<lparr>fetch := (\<lambda>r. if req_url r = ''https://api.example/v1/profile''
                                      then Some (answer 503 ''unavailable'')
                                      else map_of exampleNetwork (req_url r))\<rparr>"

text \<open>
  Claims as the gateway forwards them, with the groups as a string and as a list, and the
  request that reaches the authorization middleware with given claims.
\<close>

definition claimsWith :: "jsval \<Rightarrow> jsval" where
  "claimsWith gs =
     JObject [(''sub'', JString ''u1''), (''email'', JString ''u1@app.example''),
              (''cognito:groups'', gs)]"

definition forwarded :: "jsval \<Rightarrow> srv_request" where
  "forwarded claims =
     \<lparr>headers = [],
      apiGateway = Some (JObject [(''authorizer'', JObject [(''claims'', claims)])]),
      auth = None\<rparr>"

definition exampleEnv :: server_env where
  "exampleEnv =
     \<lparr>srv_JSON_parse = map_of [(''null'', JNull)],
      urlOrigin = map_of [(''https://app.example'', ''https://app.example''),
                          (''https://app.example/gallery?page=2'', ''https://app.example'')],
      ssmGet = map_of [(''/cognito/client-id'', Some ''client1''),
                       (''/cognito/domain'', Some ''https://uptick.auth.eu-west-2.amazoncognito.com''),
                       (''/cognito/user-pool-id'', Some ''eu-west-2_pool1'')],
      region = None,
      isoTime = ''2026-01-01T00:00:00.000Z''\<rparr>"

text \<open>The same service with the parameter store out of reach.\<close>

definition storelessEnv :: server_env where
  "storelessEnv = exampleEnv\<lparr>ssmGet := (\<lambda>name. None)\<rparr>"

text \<open>
  The world in which the config endpoint answers and the debugging profile request of
  \<open>loadCognitoConfig\<close> is rejected by the network.
\<close>

definition profilelessPlatform :: platform where
  "profilelessPlatform =
     examplePlatform\<lparr>fetch := (\<lambda>r. if req_url r = ''https://api.example/v1/profile''
                                      then None
                                      else map_of exampleNetwork (req_url r))\<rparr>"

text \<open>
  The payload \<open>{"sub":"u1"}\<close>, with no \<open>exp\<close>, an ID token that carries it, a storage that
  holds the token, and the world with the failing profile endpoint in which it decodes.
\<close>

definition noExpText :: string where
  "noExpText = ''{'' @ quoted ''sub'' @ '':'' @ quoted ''u1'' @ ''}''"

definition noExpToken :: string where
  "noExpToken = ''eyJhbGciOiJub25lIn0.eyJzdWIiOiJ1MSJ9.sig''"

definition noExpStorage :: "string \<rightharpoonup> string" where
  "noExpStorage = [ID_TOKEN_STORAGE_KEY \<mapsto> noExpToken, TOKEN_STORAGE_KEY \<mapsto> ''at1'']"

definition noExpPlatform :: platform where
  "noExpPlatform =
     failingProfilePlatform
       \<lparr>JSON_parse := (\<lambda>s. if s = noExpText then Some (JObject [(''sub'', JString ''u1'')])
                           else map_of exampleJson s),
        atob := (\<lambda>s. if s = ''eyJzdWIiOiJ1MSJ9'' then Some noExpText
                     else map_of exampleBase64 s)\<rparr>"

section \<open>Notions of the specification about the identity and the config endpoint\<close>

text \<open>
  The groups of the identity that the client derives from a decoded ID token, and the groups
  of the identity that the server attaches for given forwarded claims.
\<close>

definition clientGroups :: "jsval \<Rightarrow> jsval option" where
  "clientGroups decoded = map_option (\<lambda>u. propOf u ''groups'') (userFromClaims decoded)"

definition serverGroups :: "jsval \<Rightarrow> string list option" where
  "serverGroups claims = map_option groups (auth (attachAuth (forwarded claims)))"

text \<open>
  "The request's Origin header (falling back to Referer)": the \<open>Origin\<close> header when it is
  there and not empty, else the \<open>Referer\<close> header when it is there and not empty.
\<close>

definition requestOrigin :: "srv_request \<Rightarrow> string option" where
  "requestOrigin req =
     (if truthyStr (map_of (headers req) ''origin'') then map_of (headers req) ''origin''
      else if truthyStr (map_of (headers req) ''referer'') then map_of (headers req) ''referer''
      else None)"

text \<open>
  The configuration is ready for the endpoint: \<open>loadConfig\<close> returns and \<open>getJwtConfig\<close>
  does not throw.
\<close>

definition configReady :: "server_env \<Rightarrow> srv_config \<Rightarrow> bool" where
  "configReady env cfg =
     (case loadConfig env cfg of
        (Inl e, cfg1) \<Rightarrow> False
      | (Inr u, cfg1) \<Rightarrow> (case getJwtConfig cfg1 of Inl e \<Rightarrow> False | Inr r \<Rightarrow> True))"

text \<open>The \<open>redirectUri\<close> of the body of a response.\<close>

definition redirectUriOf :: "srv_response \<Rightarrow> jsval" where
  "redirectUriOf r = propOf (srv_body r) ''redirectUri''"

section \<open>Properties of the challenge derivation\<close>

lemma unat_byte_less: "unat (a :: byte) < 256"
  using unsigned_less [of a, where 'a = nat] by simp

lemma sextet0_less: "sextet0 a < 64"
  using unat_byte_less [of a] by (simp add: sextet0_def)

lemma sextet1_less: "sextet1 a b < 64"
proof -
  have "unat a mod 4 < 4" by simp
  moreover have "unat b div 16 < 16" using unat_byte_less [of b] by simp
  ultimately show ?thesis unfolding sextet1_def by linarith
qed

lemma sextet2_less: "sextet2 b c < 64"
proof -
  have "unat b mod 16 < 16" by simp
  moreover have "unat c div 64 < 4" using unat_byte_less [of c] by simp
  ultimately show ?thesis unfolding sextet2_def by linarith
qed

lemma sextet3_less: "sextet3 c < 64"
  by (simp add: sextet3_def)

lemma map_urlChar_stdAlphabet: "map urlChar stdAlphabet = urlAlphabet"
  by (simp add: stdAlphabet_def urlAlphabet_def urlChar_def)

lemma length_stdAlphabet: "length stdAlphabet = 64"
  by (simp add: stdAlphabet_def)

lemma length_urlAlphabet: "length urlAlphabet = 64"
  by (simp add: urlAlphabet_def)

lemma urlChar_nth: "i < 64 \<Longrightarrow> urlChar (stdAlphabet ! i) = urlAlphabet ! i"
proof -
  assume i: "i < 64"
  then have "map urlChar stdAlphabet ! i = urlChar (stdAlphabet ! i)"
    by (simp add: length_stdAlphabet)
  then show ?thesis by (simp add: map_urlChar_stdAlphabet)
qed

lemma urlAlphabet_no_pad: "CHR ''='' \<notin> set urlAlphabet"
  by (simp add: urlAlphabet_def)

lemma urlAlphabet_nth_no_pad: "i < 64 \<Longrightarrow> urlAlphabet ! i \<noteq> CHR ''=''"
proof
  assume i: "i < 64" and eq: "urlAlphabet ! i = CHR ''=''"
  from i have "urlAlphabet ! i \<in> set urlAlphabet"
    by (simp add: length_urlAlphabet)
  with eq urlAlphabet_no_pad show False by simp
qed

lemma urlChar_pad: "urlChar CHR ''='' = CHR ''=''"
  by (simp add: urlChar_def)

lemma replace_twice:
  "replaceChar CHR ''/'' CHR ''_'' (replaceChar CHR ''+'' CHR ''-'' s) = map urlChar s"
  by (simp add: replaceChar_def urlChar_def Let_def)

lemma strip_toBase64: "removeChar CHR ''='' (map urlChar (toBase64 bs)) = base64url bs"
proof (induction bs rule: toBase64.induct)
  case 1
  show ?case by (simp add: removeChar_def)
next
  case (2 a)
  show ?case
    by (simp add: removeChar_def urlChar_nth urlAlphabet_nth_no_pad sextet0_less sextet1_less sextet2_less sextet3_less urlChar_pad)
next
  case (3 a b)
  show ?case
    by (simp add: removeChar_def urlChar_nth urlAlphabet_nth_no_pad sextet0_less sextet1_less sextet2_less sextet3_less urlChar_pad)
next
  case (4 a b c rest)
  then show ?case
    by (simp add: removeChar_def urlChar_nth urlAlphabet_nth_no_pad sextet0_less sextet1_less sextet2_less sextet3_less)
qed

text \<open>
  C9. For every code verifier, the challenge that \<open>generateCodeChallenge\<close> derives is the
  unpadded base64url encoding of the SHA-256 digest of the verifier: replacing \<open>+\<close> by
  \<open>-\<close> and \<open>/\<close> by \<open>_\<close> in the padded standard encoding and dropping \<open>=\<close> gives
  exactly the encoding over the URL-safe alphabet. The hash is any function.
\<close>

theorem generateCodeChallenge_base64url:
  "generateCodeChallenge sha256 codeVerifier = base64url (sha256 codeVerifier)"
  by (simp add: generateCodeChallenge_def replace_twice strip_toBase64)

section \<open>Properties of the PKCE client\<close>

text \<open>Loading the configuration reads and writes no session field.\<close>

lemma loadCognitoConfig_storage:
  "sessionStorage (snd (loadCognitoConfig p st)) = sessionStorage st"
  by (simp add: loadCognitoConfig_def doFetch_def split: option.splits prod.splits)

lemma loadCognitoConfig_cached:
  "truthy (COGNITO_DOMAIN st) \<Longrightarrow> truthy (COGNITO_CLIENT_ID st)
     \<Longrightarrow> loadCognitoConfig p st = (Inr (), st)"
  by (simp add: loadCognitoConfig_def)

lemma getCurrentUser_storage:
  "sessionStorage (snd (getCurrentUser p st)) = sessionStorage st"
  by (simp add: getCurrentUser_def doFetch_def split: option.splits prod.splits)

lemma headersSet_lookup: "map_of (headersSet k v hs) k = Some v"
  by (induction hs) auto

text \<open>
  A login that starts has stored the three session fields together: the verifier, the
  state made of the random bytes, and the callback URL of the page.
\<close>

lemma startLogin_stores_session_fields:
  assumes "fst (startLogin p array codeVerifier challengeOf st) = Inr u"
  shows "getItem (snd (startLogin p array codeVerifier challengeOf st)) CODE_VERIFIER_KEY
           = Some codeVerifier
    \<and> getItem (snd (startLogin p array codeVerifier challengeOf st)) STATE_KEY
           = Some (generateState array)
    \<and> getItem (snd (startLogin p array codeVerifier challengeOf st)) REDIRECT_URI_KEY
           = Some (getRedirectUri p)"
proof -
  obtain r st1 where L: "loadCognitoConfig p st = (r, st1)"
    by (cases "loadCognitoConfig p st")
  from assms show ?thesis
    by (auto simp: startLogin_def L Let_def getItem_def setItem_def CODE_VERIFIER_KEY_def
        STATE_KEY_def REDIRECT_URI_KEY_def split: sum.splits if_splits option.splits)
qed

subsection \<open>Expired tokens\<close>

text \<open>
  C1, as stated, fails. The stored ID token \<open>eyJhbGciOiJub25lIn0.eyJleHAiOjEwMH0.sig\<close>
  decodes to \<open>{"exp":100}\<close>, in the past at time 1000. \<open>getCurrentUser\<close> sends it in the
  \<open>Authorization\<close> header and returns the user the profile endpoint answers with, not
  \<open>null\<close>; \<open>authenticatedFetch\<close> sends it too and returns the response, not an error.
\<close>

theorem expired_token_is_attached:
  "tokenExpired examplePlatform expiredToken
   \<and> getIdToken (pageLoad expiredStorage) = Some expiredToken
   \<and> map authorizationOf (newlySent (pageLoad expiredStorage)
          (snd (getCurrentUser examplePlatform (pageLoad expiredStorage))))
       = [Some (''Bearer '' @ expiredToken)]
   \<and> fst (getCurrentUser examplePlatform (pageLoad expiredStorage))
       = JObject [(''sub'', JString ''u1'')]
   \<and> map authorizationOf (newlySent (pageLoad expiredStorage)
          (snd (authenticatedFetch examplePlatform ''https://api.example/v1/profile''
                  (getRequest [] []) (pageLoad expiredStorage))))
       = [Some (''Bearer '' @ expiredToken)]
   \<and> fst (authenticatedFetch examplePlatform ''https://api.example/v1/profile''
             (getRequest [] []) (pageLoad expiredStorage))
       = Inr (answer 200 profileText)"
  by (simp add: tokenExpired_def decodePayload_def getCurrentUser_def authenticatedFetch_def
      doFetch_def getRequest_def getItem_def getIdToken_def getAccessToken_def res_ok_def
      truthyStr_def orStr_def authorizationOf_def newlySent_def pageLoad_def
      expiredStorage_def expiredToken_def expiredText_def examplePlatform_def exampleJson_def
      exampleBase64_def exampleNetwork_def answer_def quoted_def configText_def profileText_def
      tokensText_def ID_TOKEN_STORAGE_KEY_def TOKEN_STORAGE_KEY_def)

text \<open>
  C1, amended. \<open>getCurrentUser\<close> and \<open>authenticatedFetch\<close> do not decode the token and do
  not read the clock. Whenever a non-empty ID token is stored, or else a non-empty access
  token, each of them sends exactly one request, with that token in the \<open>Authorization\<close>
  header, and \<open>authenticatedFetch\<close> does not fail for want of a credential. Only when
  neither token is stored (or the stored ones are empty) do they behave as without a token:
  \<open>getCurrentUser\<close> returns \<open>null\<close> and \<open>authenticatedFetch\<close> fails with the
  no-credential error, and nothing is sent. The outcome is the same at every time \<open>n\<close> and
  with every base64 decoder \<open>a\<close>.
\<close>

theorem stored_token_is_sent_unchecked:
  "(orStr (getIdToken st) (getAccessToken st) = Some token \<and> token \<noteq> [] \<longrightarrow>
      newlySent st (snd (getCurrentUser p st))
        = [getRequest (API_BASE_URL p @ ''/v1/profile'') [(''authorization'', ''Bearer '' @ token)]]
      \<and> (\<exists>r. newlySent st (snd (authenticatedFetch p u options st)) = [r]
               \<and> req_url r = u \<and> authorizationOf r = Some (''Bearer '' @ token))
      \<and> fst (authenticatedFetch p u options st) \<noteq> Inl NoCredential)
   \<and> (\<not> truthyStr (orStr (getIdToken st) (getAccessToken st)) \<longrightarrow>
        getCurrentUser p st = (JNull, st)
        \<and> authenticatedFetch p u options st = (Inl NoCredential, st))
   \<and> getCurrentUser (p\<lparr>now := n, atob := a\<rparr>) st = getCurrentUser p st
   \<and> authenticatedFetch (p\<lparr>now := n, atob := a\<rparr>) u options st
       = authenticatedFetch p u options st"
proof (intro conjI impI)
  assume t: "orStr (getIdToken st) (getAccessToken st) = Some token \<and> token \<noteq> []"
  then show "newlySent st (snd (getCurrentUser p st))
        = [getRequest (API_BASE_URL p @ ''/v1/profile'') [(''authorization'', ''Bearer '' @ token)]]"
    by (simp add: getCurrentUser_def doFetch_def newlySent_def split: option.splits)
  from t show "\<exists>r. newlySent st (snd (authenticatedFetch p u options st)) = [r]
               \<and> req_url r = u \<and> authorizationOf r = Some (''Bearer '' @ token)"
    by (simp add: authenticatedFetch_def doFetch_def newlySent_def authorizationOf_def
        headersSet_lookup split: option.splits)
  from t show "fst (authenticatedFetch p u options st) \<noteq> Inl NoCredential"
    by (simp add: authenticatedFetch_def doFetch_def split: option.splits)
next
  assume f: "\<not> truthyStr (orStr (getIdToken st) (getAccessToken st))"
  then show "getCurrentUser p st = (JNull, st)"
    by (simp add: getCurrentUser_def truthyStr_def split: option.splits)
  from f show "authenticatedFetch p u options st = (Inl NoCredential, st)"
    by (simp add: authenticatedFetch_def truthyStr_def split: option.splits)
next
  show "getCurrentUser (p\<lparr>now := n, atob := a\<rparr>) st = getCurrentUser p st"
    by (simp add: getCurrentUser_def doFetch_def cong: option.case_cong if_cong)
  show "authenticatedFetch (p\<lparr>now := n, atob := a\<rparr>) u options st
          = authenticatedFetch p u options st"
    by (simp add: authenticatedFetch_def doFetch_def cong: option.case_cong if_cong)
qed

theorem stored_token_is_sent_unchecked_witness:
  "orStr (getIdToken (pageLoad expiredStorage)) (getAccessToken (pageLoad expiredStorage))
     = Some expiredToken
   \<and> expiredToken \<noteq> []
   \<and> newlySent (pageLoad expiredStorage)
        (snd (getCurrentUser examplePlatform (pageLoad expiredStorage)))
       = [getRequest ''https://api.example/v1/profile''
            [(''authorization'', ''Bearer '' @ expiredToken)]]
   \<and> \<not> truthyStr (orStr (getIdToken (pageLoad Map.empty)) (getAccessToken (pageLoad Map.empty)))
   \<and> getCurrentUser examplePlatform (pageLoad Map.empty) = (JNull, pageLoad Map.empty)
   \<and> authenticatedFetch examplePlatform ''https://api.example/v1/profile'' (getRequest [] [])
        (pageLoad Map.empty) = (Inl NoCredential, pageLoad Map.empty)"
proof -
  note defs = getIdToken_def getAccessToken_def getItem_def orStr_def truthyStr_def
    pageLoad_def expiredStorage_def expiredToken_def ID_TOKEN_STORAGE_KEY_def
    TOKEN_STORAGE_KEY_def
  have a: "orStr (getIdToken (pageLoad expiredStorage)) (getAccessToken (pageLoad expiredStorage))
             = Some expiredToken \<and> expiredToken \<noteq> []"
    by (simp add: defs)
  have b: "\<not> truthyStr (orStr (getIdToken (pageLoad Map.empty))
                 (getAccessToken (pageLoad Map.empty)))"
    by (simp add: defs)
  have c: "API_BASE_URL examplePlatform = ''https://api.example''"
    by (simp add: examplePlatform_def)
  from a b c
    stored_token_is_sent_unchecked [of "pageLoad expiredStorage" expiredToken examplePlatform]
    stored_token_is_sent_unchecked [of "pageLoad Map.empty" _ examplePlatform
      "''https://api.example/v1/profile''" "getRequest [] []"]
  show ?thesis by simp
qed

subsection \<open>The check of the state at the callback\<close>

text \<open>
  C2, as stated, fails. \<open>exchangeCodeForTokens\<close> loads the configuration before it reads
  the session fields. On a freshly loaded page with the network down, a call with a state
  that differs from the stored one fails with the configuration error, not with the
  invalid-state error, and so does a call that no \<open>startLogin\<close> preceded.
\<close>

theorem exchange_offline_is_not_InvalidState:
  "getItem (pageLoad pendingStorage) STATE_KEY = Some ''state1''
   \<and> fst (exchangeCodeForTokens offlinePlatform ''abc'' ''WRONG'' (pageLoad pendingStorage))
       = Inl ConfigLoadFailed
   \<and> fst (exchangeCodeForTokens offlinePlatform ''abc'' ''state1'' (pageLoad Map.empty))
       = Inl ConfigLoadFailed"
  by (simp add: exchangeCodeForTokens_def loadCognitoConfig_def doFetch_def getItem_def
      pageLoad_def pendingStorage_def offlinePlatform_def examplePlatform_def
      CODE_VERIFIER_KEY_def STATE_KEY_def REDIRECT_URI_KEY_def)

text \<open>\<open>loadCognitoConfig\<close> throws one error only.\<close>

lemma loadCognitoConfig_error:
  "fst (loadCognitoConfig p st) = Inl e \<Longrightarrow> e = ConfigLoadFailed"
  by (auto simp: loadCognitoConfig_def doFetch_def split: option.splits if_splits)

text \<open>
  C2, amended. The configuration is available to a call when \<open>loadCognitoConfig\<close> returns
  without throwing (the values are cached, or the config endpoint answers and the debugging
  profile request that follows it gives JSON) and the domain and the client id are truthy
  afterwards.
  \<^item> When the configuration is available, \<open>exchangeCodeForTokens\<close> fails with the
    invalid-state error whenever the stored state is absent or empty, or differs from the
    provided one, or the stored code verifier is absent or empty. The outcome is one and
    the same in the three cases, whatever the code and the state given: the same error,
    the state that loading the configuration left, no session field changed.
  \<^item> When the configuration is not available, the call fails before it reads a session
    field, whatever the session fields, the code and the state are: with the
    configuration-load error when \<open>loadCognitoConfig\<close> throws, with the
    configuration-not-available error when it returns and the domain or the client id
    is falsy. No session field changes.
\<close>

theorem exchange_invalid_state:
  "(configAvailable p st
      \<and> (\<not> truthyStr (getItem st STATE_KEY) \<or> getItem st STATE_KEY \<noteq> Some state
           \<or> \<not> truthyStr (getItem st CODE_VERIFIER_KEY)) \<longrightarrow>
      exchangeCodeForTokens p code state st
        = (Inl InvalidState, snd (loadCognitoConfig p st))
      \<and> sessionStorage (snd (exchangeCodeForTokens p code state st)) = sessionStorage st)
   \<and> (\<not> configAvailable p st \<longrightarrow>
      exchangeCodeForTokens p code state st
        = (Inl (if fst (loadCognitoConfig p st) = Inr () then ConfigNotAvailable
                else ConfigLoadFailed),
           snd (loadCognitoConfig p st))
      \<and> sessionStorage (snd (exchangeCodeForTokens p code state st)) = sessionStorage st)"
proof -
  obtain r st1 where L: "loadCognitoConfig p st = (r, st1)"
    by (cases "loadCognitoConfig p st")
  have S: "sessionStorage st1 = sessionStorage st"
    using loadCognitoConfig_storage [of p st] L by simp
  show ?thesis
  proof (intro conjI impI)
    assume a: "configAvailable p st
      \<and> (\<not> truthyStr (getItem st STATE_KEY) \<or> getItem st STATE_KEY \<noteq> Some state
           \<or> \<not> truthyStr (getItem st CODE_VERIFIER_KEY))"
    with L obtain u where r: "r = Inr u"
      and t: "truthy (COGNITO_DOMAIN st1)" "truthy (COGNITO_CLIENT_ID st1)"
      by (auto simp: configAvailable_def split: sum.splits)
    from a have E: "exchangeCodeForTokens p code state st = (Inl InvalidState, st1)"
      by (auto simp: exchangeCodeForTokens_def L r t S getItem_def Let_def)
    with L show "exchangeCodeForTokens p code state st
        = (Inl InvalidState, snd (loadCognitoConfig p st))"
      by simp
    from E S show "sessionStorage (snd (exchangeCodeForTokens p code state st))
        = sessionStorage st"
      by simp
  next
    assume n: "\<not> configAvailable p st"
    have E: "exchangeCodeForTokens p code state st
        = (Inl (if r = Inr () then ConfigNotAvailable else ConfigLoadFailed), st1)"
    proof (cases r)
      case (Inl e)
      with L loadCognitoConfig_error [of p st e] have "e = ConfigLoadFailed" by simp
      with Inl show ?thesis by (simp add: exchangeCodeForTokens_def L)
    next
      case (Inr u)
      with n L have "\<not> truthy (COGNITO_DOMAIN st1) \<or> \<not> truthy (COGNITO_CLIENT_ID st1)"
        by (simp add: configAvailable_def)
      with Inr show ?thesis by (auto simp: exchangeCodeForTokens_def L)
    qed
    with L show "exchangeCodeForTokens p code state st
        = (Inl (if fst (loadCognitoConfig p st) = Inr () then ConfigNotAvailable
                else ConfigLoadFailed),
           snd (loadCognitoConfig p st))"
      by simp
    from E S show "sessionStorage (snd (exchangeCodeForTokens p code state st))
        = sessionStorage st"
      by simp
  qed
qed

text \<open>
  The cases at concrete inputs: a wrong state and no preceding login with the
  configuration available; the network down; and the config endpoint answering while the
  debugging profile request is rejected, which leaves the domain and the client id set
  and the configuration not available.
\<close>

theorem exchange_invalid_state_witness:
  "configAvailable examplePlatform (pageLoad pendingStorage)
   \<and> getItem (pageLoad pendingStorage) STATE_KEY \<noteq> Some ''WRONG''
   \<and> fst (exchangeCodeForTokens examplePlatform ''abc'' ''WRONG'' (pageLoad pendingStorage))
       = Inl InvalidState
   \<and> \<not> truthyStr (getItem (pageLoad Map.empty) CODE_VERIFIER_KEY)
   \<and> fst (exchangeCodeForTokens examplePlatform ''abc'' ''state1'' (pageLoad Map.empty))
       = Inl InvalidState
   \<and> \<not> configAvailable offlinePlatform (pageLoad pendingStorage)
   \<and> fst (exchangeCodeForTokens offlinePlatform ''abc'' ''state1'' (pageLoad pendingStorage))
       = Inl ConfigLoadFailed
   \<and> \<not> configAvailable profilelessPlatform (pageLoad pendingStorage)
   \<and> truthy (COGNITO_DOMAIN (snd (loadCognitoConfig profilelessPlatform
        (pageLoad pendingStorage))))
   \<and> truthy (COGNITO_CLIENT_ID (snd (loadCognitoConfig profilelessPlatform
        (pageLoad pendingStorage))))
   \<and> fst (exchangeCodeForTokens profilelessPlatform ''abc'' ''state1''
        (pageLoad pendingStorage)) = Inl ConfigLoadFailed"
proof -
  note defs = configAvailable_def loadCognitoConfig_def doFetch_def getRequest_def
    getItem_def res_ok_def truthyStr_def pageLoad_def pendingStorage_def examplePlatform_def
    offlinePlatform_def profilelessPlatform_def
    exampleJson_def exampleNetwork_def answer_def quoted_def configText_def profileText_def
    CODE_VERIFIER_KEY_def STATE_KEY_def REDIRECT_URI_KEY_def
  have a: "configAvailable examplePlatform (pageLoad pendingStorage)"
    by (simp add: defs)
  have b: "getItem (pageLoad pendingStorage) STATE_KEY \<noteq> Some ''WRONG''"
    by (simp add: defs)
  have a': "configAvailable examplePlatform (pageLoad Map.empty)"
    by (simp add: defs)
  have b': "\<not> truthyStr (getItem (pageLoad Map.empty) CODE_VERIFIER_KEY)"
    by (simp add: defs)
  have c: "\<not> configAvailable offlinePlatform (pageLoad pendingStorage)"
    "fst (loadCognitoConfig offlinePlatform (pageLoad pendingStorage)) \<noteq> Inr ()"
    by (simp_all add: defs)
  have d: "\<not> configAvailable profilelessPlatform (pageLoad pendingStorage)"
    "fst (loadCognitoConfig profilelessPlatform (pageLoad pendingStorage)) \<noteq> Inr ()"
    "truthy (COGNITO_DOMAIN (snd (loadCognitoConfig profilelessPlatform
        (pageLoad pendingStorage))))"
    "truthy (COGNITO_CLIENT_ID (snd (loadCognitoConfig profilelessPlatform
        (pageLoad pendingStorage))))"
    by (simp_all add: defs)
  from a b
    exchange_invalid_state [of examplePlatform "pageLoad pendingStorage" "''WRONG''" "''abc''"]
  have 1: "fst (exchangeCodeForTokens examplePlatform ''abc'' ''WRONG''
                  (pageLoad pendingStorage)) = Inl InvalidState"
    by simp
  from a' b'
    exchange_invalid_state [of examplePlatform "pageLoad Map.empty" "''state1''" "''abc''"]
  have 2: "fst (exchangeCodeForTokens examplePlatform ''abc'' ''state1'' (pageLoad Map.empty))
             = Inl InvalidState"
    by simp
  from c
    exchange_invalid_state [of offlinePlatform "pageLoad pendingStorage" "''state1''" "''abc''"]
  have 3: "fst (exchangeCodeForTokens offlinePlatform ''abc'' ''state1''
                  (pageLoad pendingStorage)) = Inl ConfigLoadFailed"
    by simp
  from d(1,2)
    exchange_invalid_state [of profilelessPlatform "pageLoad pendingStorage" "''state1''"
      "''abc''"]
  have 4: "fst (exchangeCodeForTokens profilelessPlatform ''abc'' ''state1''
                  (pageLoad pendingStorage)) = Inl ConfigLoadFailed"
    by simp
  from a b b' c(1) d(1,3,4) 1 2 3 4 show ?thesis by blast
qed

subsection \<open>The session fields at the exchange\<close>

text \<open>
  C3, as stated, fails. With the code verifier and the state stored and no redirect URI
  stored, the exchange is not rejected: it falls back on \<open>getRedirectUri()\<close> and returns
  the tokens of the provider.
\<close>

theorem exchange_without_stored_redirectUri_succeeds:
  "getItem (pageLoad pendingNoRedirect) REDIRECT_URI_KEY = None
   \<and> fst (exchangeCodeForTokens examplePlatform ''abc'' ''state1'' (pageLoad pendingNoRedirect))
       = Inr (JObject [(''access_token'', JString ''at1''), (''expires_in'', JNumber 3600)])"
  by (simp add: exchangeCodeForTokens_def loadCognitoConfig_def doFetch_def getRequest_def
      tokenRequest_def getItem_def getRedirectUri_def res_ok_def toStr_def truthyStr_def
      strOrElse_def pageLoad_def pendingNoRedirect_def examplePlatform_def exampleJson_def
      exampleNetwork_def answer_def quoted_def configText_def profileText_def tokensText_def
      CODE_VERIFIER_KEY_def STATE_KEY_def REDIRECT_URI_KEY_def)

text \<open>
  C3, amended. \<open>exchangeCodeForTokens\<close> rejects the exchange unless the state and the code
  verifier are in session storage, non-empty, and the provided state equals the stored
  one: whenever it returns tokens, they were. The stored redirect URI is not required:
  with the configuration available, the state stored, non-empty and equal to the provided
  one, and the verifier stored and non-empty, the exchange proceeds whatever the redirect
  URI field holds; the token request carries the stored redirect URI when it is stored and
  non-empty, and \<open>getRedirectUri()\<close> when it is absent or empty, and the call returns the
  tokens when the provider answers that request with a success status and JSON.
\<close>

theorem exchange_success_needs_state_and_verifier:
  "(fst (exchangeCodeForTokens p code state st) = Inr tokens \<longrightarrow>
      getItem st STATE_KEY = Some state \<and> state \<noteq> []
      \<and> (\<exists>verifier. getItem st CODE_VERIFIER_KEY = Some verifier \<and> verifier \<noteq> []
            \<and> last (sent (snd (exchangeCodeForTokens p code state st)))
                = tokenRequest p (snd (loadCognitoConfig p st)) code
                    (strOrElse (getItem st REDIRECT_URI_KEY) (getRedirectUri p)) verifier))
   \<and> (configAvailable p st
        \<and> getItem st STATE_KEY = Some state \<and> state \<noteq> []
        \<and> getItem st CODE_VERIFIER_KEY = Some verifier \<and> verifier \<noteq> []
        \<and> fetch p (tokenRequest p (snd (loadCognitoConfig p st)) code
              (strOrElse (getItem st REDIRECT_URI_KEY) (getRedirectUri p)) verifier) = Some res
        \<and> res_ok res \<and> JSON_parse p (res_body res) = Some tokens \<longrightarrow>
      fst (exchangeCodeForTokens p code state st) = Inr tokens
      \<and> last (sent (snd (exchangeCodeForTokens p code state st)))
          = tokenRequest p (snd (loadCognitoConfig p st)) code
              (strOrElse (getItem st REDIRECT_URI_KEY) (getRedirectUri p)) verifier)
   \<and> (getItem st REDIRECT_URI_KEY = None \<or> getItem st REDIRECT_URI_KEY = Some [] \<longrightarrow>
        strOrElse (getItem st REDIRECT_URI_KEY) (getRedirectUri p) = getRedirectUri p)
   \<and> (getItem st REDIRECT_URI_KEY = Some uri \<and> uri \<noteq> [] \<longrightarrow>
        strOrElse (getItem st REDIRECT_URI_KEY) (getRedirectUri p) = uri)"
proof -
  obtain r st1 where L: "loadCognitoConfig p st = (r, st1)"
    by (cases "loadCognitoConfig p st")
  have S: "sessionStorage st1 = sessionStorage st"
    using loadCognitoConfig_storage [of p st] L by simp
  have A: "fst (exchangeCodeForTokens p code state st) = Inr tokens \<longrightarrow>
      getItem st STATE_KEY = Some state \<and> state \<noteq> []
      \<and> (\<exists>verifier. getItem st CODE_VERIFIER_KEY = Some verifier \<and> verifier \<noteq> []
            \<and> last (sent (snd (exchangeCodeForTokens p code state st)))
                = tokenRequest p (snd (loadCognitoConfig p st)) code
                    (strOrElse (getItem st REDIRECT_URI_KEY) (getRedirectUri p)) verifier)"
    by (auto simp: exchangeCodeForTokens_def L S getItem_def Let_def truthyStr_def
        doFetch_def removeItem_def split: sum.splits if_splits option.splits)
  have B: "configAvailable p st
        \<and> getItem st STATE_KEY = Some state \<and> state \<noteq> []
        \<and> getItem st CODE_VERIFIER_KEY = Some verifier \<and> verifier \<noteq> []
        \<and> fetch p (tokenRequest p (snd (loadCognitoConfig p st)) code
              (strOrElse (getItem st REDIRECT_URI_KEY) (getRedirectUri p)) verifier) = Some res
        \<and> res_ok res \<and> JSON_parse p (res_body res) = Some tokens \<longrightarrow>
      fst (exchangeCodeForTokens p code state st) = Inr tokens
      \<and> last (sent (snd (exchangeCodeForTokens p code state st)))
          = tokenRequest p (snd (loadCognitoConfig p st)) code
              (strOrElse (getItem st REDIRECT_URI_KEY) (getRedirectUri p)) verifier"
  proof (rule impI)
    assume a: "configAvailable p st
        \<and> getItem st STATE_KEY = Some state \<and> state \<noteq> []
        \<and> getItem st CODE_VERIFIER_KEY = Some verifier \<and> verifier \<noteq> []
        \<and> fetch p (tokenRequest p (snd (loadCognitoConfig p st)) code
              (strOrElse (getItem st REDIRECT_URI_KEY) (getRedirectUri p)) verifier) = Some res
        \<and> res_ok res \<and> JSON_parse p (res_body res) = Some tokens"
    with L obtain u where r: "r = Inr u"
      and t: "truthy (COGNITO_DOMAIN st1)" "truthy (COGNITO_CLIENT_ID st1)"
      by (auto simp: configAvailable_def split: sum.splits)
    from a L have E: "exchangeCodeForTokens p code state st
        = (Inr tokens,
           removeItem REDIRECT_URI_KEY (removeItem STATE_KEY (removeItem CODE_VERIFIER_KEY
             (st1\<lparr>sent := sent st1 @ [tokenRequest p st1 code
                (strOrElse (getItem st REDIRECT_URI_KEY) (getRedirectUri p)) verifier]\<rparr>))))"
      by (simp add: exchangeCodeForTokens_def r t S getItem_def Let_def truthyStr_def
          doFetch_def)
    with L show "fst (exchangeCodeForTokens p code state st) = Inr tokens
      \<and> last (sent (snd (exchangeCodeForTokens p code state st)))
          = tokenRequest p (snd (loadCognitoConfig p st)) code
              (strOrElse (getItem st REDIRECT_URI_KEY) (getRedirectUri p)) verifier"
      by (simp add: removeItem_def)
  qed
  have C: "getItem st REDIRECT_URI_KEY = None \<or> getItem st REDIRECT_URI_KEY = Some [] \<longrightarrow>
        strOrElse (getItem st REDIRECT_URI_KEY) (getRedirectUri p) = getRedirectUri p"
    by (auto simp: strOrElse_def)
  have D: "getItem st REDIRECT_URI_KEY = Some uri \<and> uri \<noteq> [] \<longrightarrow>
        strOrElse (getItem st REDIRECT_URI_KEY) (getRedirectUri p) = uri"
    by (simp add: strOrElse_def)
  from A B C D show ?thesis by (intro conjI)
qed

text \<open>
  At a concrete input, with the code verifier and the state stored and no redirect URI:
  the hypotheses of the second part hold with the request that carries
  \<open>https://app.example/callback\<close>, and the call returns the tokens of the provider.
\<close>

theorem exchange_success_needs_state_and_verifier_witness:
  "configAvailable examplePlatform (pageLoad pendingNoRedirect)
   \<and> getItem (pageLoad pendingNoRedirect) STATE_KEY = Some ''state1''
   \<and> getItem (pageLoad pendingNoRedirect) CODE_VERIFIER_KEY = Some ''verifier1''
   \<and> getItem (pageLoad pendingNoRedirect) REDIRECT_URI_KEY = None
   \<and> fetch examplePlatform (tokenRequest examplePlatform
         (snd (loadCognitoConfig examplePlatform (pageLoad pendingNoRedirect)))
         ''abc'' ''https://app.example/callback'' ''verifier1'') = Some (answer 200 tokensText)
   \<and> res_ok (answer 200 tokensText)
   \<and> fst (exchangeCodeForTokens examplePlatform ''abc'' ''state1'' (pageLoad pendingNoRedirect))
       = Inr (JObject [(''access_token'', JString ''at1''), (''expires_in'', JNumber 3600)])
   \<and> last (sent (snd (exchangeCodeForTokens examplePlatform ''abc'' ''state1''
              (pageLoad pendingNoRedirect))))
       = tokenRequest examplePlatform
           (snd (loadCognitoConfig examplePlatform (pageLoad pendingNoRedirect)))
           ''abc'' ''https://app.example/callback'' ''verifier1''"
proof -
  let ?st = "pageLoad pendingNoRedirect"
  let ?tokens = "JObject [(''access_token'', JString ''at1''), (''expires_in'', JNumber 3600)]"
  note defs = configAvailable_def loadCognitoConfig_def doFetch_def getRequest_def
    tokenRequest_def getItem_def getRedirectUri_def res_ok_def toStr_def truthyStr_def
    strOrElse_def pageLoad_def pendingNoRedirect_def examplePlatform_def exampleJson_def
    exampleNetwork_def answer_def quoted_def configText_def profileText_def tokensText_def
    CODE_VERIFIER_KEY_def STATE_KEY_def REDIRECT_URI_KEY_def
  have a: "configAvailable examplePlatform ?st"
    by (simp add: defs)
  have b: "getItem ?st STATE_KEY = Some ''state1''"
    "getItem ?st CODE_VERIFIER_KEY = Some ''verifier1''"
    "getItem ?st REDIRECT_URI_KEY = None"
    by (simp_all add: defs)
  have c: "strOrElse (getItem ?st REDIRECT_URI_KEY) (getRedirectUri examplePlatform)
             = ''https://app.example/callback''"
    by (simp add: defs)
  have d: "fetch examplePlatform (tokenRequest examplePlatform
         (snd (loadCognitoConfig examplePlatform ?st))
         ''abc'' ''https://app.example/callback'' ''verifier1'') = Some (answer 200 tokensText)"
    by (simp add: defs)
  have e: "res_ok (answer 200 tokensText)"
    "JSON_parse examplePlatform (res_body (answer 200 tokensText)) = Some ?tokens"
    by (simp_all add: defs)
  from a b c d e
    exchange_success_needs_state_and_verifier [of examplePlatform "''abc''" "''state1''" ?st
      ?tokens "''verifier1''" "answer 200 tokensText"]
  have f: "fst (exchangeCodeForTokens examplePlatform ''abc'' ''state1'' ?st) = Inr ?tokens"
    "last (sent (snd (exchangeCodeForTokens examplePlatform ''abc'' ''state1'' ?st)))
       = tokenRequest examplePlatform (snd (loadCognitoConfig examplePlatform ?st))
           ''abc'' ''https://app.example/callback'' ''verifier1''"
    by simp_all
  from a b d e(1) f show ?thesis by blast
qed

subsection \<open>The session fields after the exchange\<close>

text \<open>
  What the code does on each path. A call that returns tokens has removed the three
  session fields; a call that fails, for whatever reason, has changed no session field.
\<close>

lemma exchange_success_clears_session_fields:
  assumes "fst (exchangeCodeForTokens p code state st) = Inr tokens"
  shows "getItem (snd (exchangeCodeForTokens p code state st)) CODE_VERIFIER_KEY = None
    \<and> getItem (snd (exchangeCodeForTokens p code state st)) STATE_KEY = None
    \<and> getItem (snd (exchangeCodeForTokens p code state st)) REDIRECT_URI_KEY = None"
proof -
  obtain r st1 where L: "loadCognitoConfig p st = (r, st1)"
    by (cases "loadCognitoConfig p st")
  from assms show ?thesis
    by (auto simp: exchangeCodeForTokens_def L getItem_def Let_def doFetch_def
        removeItem_def split: sum.splits if_splits option.splits)
qed

lemma exchange_failure_keeps_session_fields:
  assumes "fst (exchangeCodeForTokens p code state st) = Inl e"
  shows "sessionStorage (snd (exchangeCodeForTokens p code state st)) = sessionStorage st"
proof -
  obtain r st1 where L: "loadCognitoConfig p st = (r, st1)"
    by (cases "loadCognitoConfig p st")
  have S: "sessionStorage st1 = sessionStorage st"
    using loadCognitoConfig_storage [of p st] L by simp
  from assms show ?thesis
    by (auto simp: exchangeCodeForTokens_def L S Let_def doFetch_def
        split: sum.splits if_splits option.splits)
qed

text \<open>
  C4, on the code. When the provider answers the token request with a status outside 200
  to 299, \<open>exchangeCodeForTokens\<close> throws the token-exchange error with the provider's
  text before it reaches the three \<open>removeItem\<close> calls: the code verifier, the state and
  the redirect URI are in session storage afterwards exactly as before the call.
\<close>

theorem refused_exchange_keeps_session_fields:
  assumes "configAvailable p st"
    and "getItem st STATE_KEY = Some state" and "state \<noteq> []"
    and "getItem st CODE_VERIFIER_KEY = Some verifier" and "verifier \<noteq> []"
    and "fetch p (tokenRequest p (snd (loadCognitoConfig p st)) code
           (strOrElse (getItem st REDIRECT_URI_KEY) (getRedirectUri p)) verifier) = Some res"
    and "\<not> res_ok res"
  shows "fst (exchangeCodeForTokens p code state st) = Inl (TokenExchangeFailed (res_body res))
    \<and> sessionStorage (snd (exchangeCodeForTokens p code state st)) = sessionStorage st"
proof -
  obtain r st1 where L: "loadCognitoConfig p st = (r, st1)"
    by (cases "loadCognitoConfig p st")
  have S: "sessionStorage st1 = sessionStorage st"
    using loadCognitoConfig_storage [of p st] L by simp
  from assms(1) L obtain u where r: "r = Inr u"
    and t: "truthy (COGNITO_DOMAIN st1)" "truthy (COGNITO_CLIENT_ID st1)"
    by (auto simp: configAvailable_def split: sum.splits)
  from assms(2-7) show ?thesis
    by (simp add: exchangeCodeForTokens_def L r t S getItem_def Let_def truthyStr_def
        doFetch_def)
qed

text \<open>
  The failing input: the page is loaded at the callback with the three fields that the
  login attempt stored, and the provider answers the token request with status 400 and the
  text \<open>invalid_grant\<close>. After the failed exchange the three fields are still stored.
\<close>

theorem refused_exchange_keeps_session_fields_witness:
  "fst (exchangeCodeForTokens refusingPlatform ''abc'' ''state1'' (pageLoad pendingStorage))
     = Inl (TokenExchangeFailed ''invalid_grant'')
   \<and> map (getItem (snd (exchangeCodeForTokens refusingPlatform ''abc'' ''state1''
             (pageLoad pendingStorage)))) [CODE_VERIFIER_KEY, STATE_KEY, REDIRECT_URI_KEY]
     = [Some ''verifier1'', Some ''state1'', Some ''https://app.example/callback'']"
proof -
  let ?st = "pageLoad pendingStorage"
  note defs = configAvailable_def loadCognitoConfig_def doFetch_def getRequest_def
    tokenRequest_def getItem_def getRedirectUri_def res_ok_def toStr_def truthyStr_def
    strOrElse_def pageLoad_def pendingStorage_def refusingPlatform_def examplePlatform_def
    exampleJson_def exampleNetwork_def answer_def quoted_def configText_def profileText_def
    CODE_VERIFIER_KEY_def STATE_KEY_def REDIRECT_URI_KEY_def
  have a: "configAvailable refusingPlatform ?st"
    by (simp add: defs)
  have b: "getItem ?st STATE_KEY = Some ''state1''" "''state1'' \<noteq> []"
    "getItem ?st CODE_VERIFIER_KEY = Some ''verifier1''" "''verifier1'' \<noteq> []"
    by (simp_all add: defs)
  have c: "fetch refusingPlatform
             (tokenRequest refusingPlatform (snd (loadCognitoConfig refusingPlatform ?st)) ''abc''
                (strOrElse (getItem ?st REDIRECT_URI_KEY) (getRedirectUri refusingPlatform))
                ''verifier1'') = Some (answer 400 ''invalid_grant'')"
    by (simp add: defs)
  have d: "\<not> res_ok (answer 400 ''invalid_grant'')"
    by (simp add: res_ok_def answer_def)
  have e: "map (sessionStorage ?st) [CODE_VERIFIER_KEY, STATE_KEY, REDIRECT_URI_KEY]
      = [Some ''verifier1'', Some ''state1'', Some ''https://app.example/callback'']"
    by (simp add: defs)
  from refused_exchange_keeps_session_fields [OF a b c d] e show ?thesis
    by (simp add: getItem_def answer_def)
qed

section \<open>Properties of the session bootstrap\<close>

text \<open>
  On the callback page, an ID token whose payload decodes gives the identity of its claims,
  without a call of the profile endpoint.
\<close>

lemma callbackUser_from_claims:
  "t \<noteq> [] \<Longrightarrow> decodePayload p t = Some decoded \<Longrightarrow> userFromClaims decoded = Some u
     \<Longrightarrow> callbackUser p (JString t) st = (u, st)"
  by (simp add: callbackUser_def)

lemma userFromClaims_object:
  "getProp decoded k = Some v \<Longrightarrow> \<exists>kvs. userFromClaims decoded = Some (JObject kvs)"
  by (cases decoded) (simp_all add: userFromClaims_def)

text \<open>
  C8, as stated, fails. The stored ID token decodes to \<open>{"sub":"u1","exp":0}\<close>: its
  \<open>exp\<close> is below the current time, 1000. The guard \<open>exp && exp < now\<close> does not hold
  for the falsy 0: the tokens are not purged, the identity of the token is displayed, and
  the user counts as authenticated.
\<close>

theorem zero_exp_is_not_purged:
  "getIdToken (api (mounted zeroStorage)) = Some zeroToken
   \<and> tokenExpired failingProfilePlatform zeroToken
   \<and> getIdToken (api (mount failingProfilePlatform (mounted zeroStorage))) = Some zeroToken
   \<and> getAccessToken (api (mount failingProfilePlatform (mounted zeroStorage))) = Some ''at1''
   \<and> propOf (user (mount failingProfilePlatform (mounted zeroStorage))) ''sub'' = JString ''u1''
   \<and> authenticated (mount failingProfilePlatform (mounted zeroStorage))"
  by (simp add: tokenExpired_def mount_def mountSync_def mountAsync_def idTokenBranch_def purge_def clearTokens_def
      userFromClaims_def propOf_def jsOr_def decodePayload_def lessThanNow_def mounted_def
      authenticated_def getCurrentUser_def doFetch_def getRequest_def getIdToken_def
      getAccessToken_def getItem_def removeItem_def res_ok_def truthyStr_def orStr_def
      pageLoad_def ID_TOKEN_STORAGE_KEY_def TOKEN_STORAGE_KEY_def CODE_VERIFIER_KEY_def
      STATE_KEY_def REDIRECT_URI_KEY_def
      zeroStorage_def zeroToken_def examplePlatform_def failingProfilePlatform_def exampleJson_def exampleBase64_def
      exampleNetwork_def answer_def quoted_def configText_def profileText_def tokensText_def
      expiredText_def pastText_def zeroText_def futureText_def)

text \<open>
  C8, amended. At the session bootstrap, with a non-empty ID token stored whose payload
  decodes to a value that is not \<open>null\<close>, and no identity yet, let \<open>exp\<close> be what the
  read of \<open>exp\<close> on the payload gives (\<open>undefined\<close> when the payload has none):
  \<^item> if \<open>exp\<close> is a number, not zero, and \<open>exp < now\<close>, all tokens are purged, no
    profile is fetched and the identity stays \<open>null\<close>;
  \<^item> if \<open>exp\<close> is falsy (absent, 0, \<open>null\<close>, \<open>false\<close> or the empty string), whatever the
    time is, or if \<open>exp\<close> is a number with \<open>now \<le> exp\<close>, the token is not treated as
    expired: the identity built from the claims of the token is set at once, before the
    profile call; after the call the identity is the user that the profile endpoint
    returned, or, when the call failed or returned nothing, still the identity of the
    token. The user is authenticated either way and the stored tokens are untouched.
\<close>

theorem bootstrap_from_id_token:
  assumes "getIdToken (api st) = Some t" and "t \<noteq> []"
    and "decodePayload p t = Some decoded"
    and "getProp decoded ''exp'' = Some exp"
    and "user st = JNull"
  shows "((\<exists>e. exp = JNumber e \<and> e \<noteq> 0 \<and> e < now p) \<longrightarrow>
            mount p st = st\<lparr>api := clearTokens (api st), loading := False\<rparr>
            \<and> getIdToken (api (mount p st)) = None
            \<and> getAccessToken (api (mount p st)) = None
            \<and> user (mount p st) = JNull)
       \<and> ((exp = JUndefined \<or> exp = JNumber 0 \<or> \<not> truthy exp
             \<or> (\<exists>e. exp = JNumber e \<and> now p \<le> e)) \<longrightarrow>
            (\<exists>u. userFromClaims decoded = Some u
                \<and> mountSync p st = (ProfileCall u, st\<lparr>user := u\<rparr>)
                \<and> user (mount p st)
                    = (if truthy (fst (getCurrentUser p (api st)))
                       then fst (getCurrentUser p (api st)) else u))
            \<and> authenticated (mount p st)
            \<and> sessionStorage (api (mount p st)) = sessionStorage (api st))"
proof -
  have A: "(\<exists>e. exp = JNumber e \<and> e \<noteq> 0 \<and> e < now p) \<longrightarrow>
            mount p st = st\<lparr>api := clearTokens (api st), loading := False\<rparr>
            \<and> getIdToken (api (mount p st)) = None
            \<and> getAccessToken (api (mount p st)) = None
            \<and> user (mount p st) = JNull"
  proof (rule impI)
    assume e: "\<exists>e. exp = JNumber e \<and> e \<noteq> 0 \<and> e < now p"
    with assms have S: "mountSync p st = purge st"
      by (auto simp: mountSync_def idTokenBranch_def truthyStr_def lessThanNow_def Let_def)
    then have M: "mount p st = st\<lparr>api := clearTokens (api st), loading := False\<rparr>"
      by (simp add: mount_def purge_def mountAsync_def)
    have I: "getIdToken (api (mount p st)) = None"
      by (simp add: M clearTokens_def removeItem_def getIdToken_def getItem_def
          ID_TOKEN_STORAGE_KEY_def TOKEN_STORAGE_KEY_def CODE_VERIFIER_KEY_def STATE_KEY_def
          REDIRECT_URI_KEY_def)
    have T: "getAccessToken (api (mount p st)) = None"
      by (simp add: M clearTokens_def removeItem_def getAccessToken_def getItem_def
          ID_TOKEN_STORAGE_KEY_def TOKEN_STORAGE_KEY_def CODE_VERIFIER_KEY_def STATE_KEY_def
          REDIRECT_URI_KEY_def)
    from assms(5) have U: "user (mount p st) = JNull" by (simp add: M)
    from M I T U show "mount p st = st\<lparr>api := clearTokens (api st), loading := False\<rparr>
            \<and> getIdToken (api (mount p st)) = None
            \<and> getAccessToken (api (mount p st)) = None
            \<and> user (mount p st) = JNull"
      by (intro conjI)
  qed
  have B: "(exp = JUndefined \<or> exp = JNumber 0 \<or> \<not> truthy exp
             \<or> (\<exists>e. exp = JNumber e \<and> now p \<le> e)) \<longrightarrow>
            (\<exists>u. userFromClaims decoded = Some u
                \<and> mountSync p st = (ProfileCall u, st\<lparr>user := u\<rparr>)
                \<and> user (mount p st)
                    = (if truthy (fst (getCurrentUser p (api st)))
                       then fst (getCurrentUser p (api st)) else u))
            \<and> authenticated (mount p st)
            \<and> sessionStorage (api (mount p st)) = sessionStorage (api st)"
  proof (rule impI)
    assume e: "exp = JUndefined \<or> exp = JNumber 0 \<or> \<not> truthy exp
             \<or> (\<exists>e. exp = JNumber e \<and> now p \<le> e)"
    then have n: "\<not> (truthy exp \<and> lessThanNow p exp)"
      by (auto simp: lessThanNow_def)
    from assms(4) obtain kvs where u: "userFromClaims decoded = Some (JObject kvs)"
      using userFromClaims_object by blast
    from assms n u
    have S: "mountSync p st = (ProfileCall (JObject kvs), st\<lparr>user := JObject kvs\<rparr>)"
      by (auto simp: mountSync_def idTokenBranch_def truthyStr_def Let_def)
    obtain r a1 where G: "getCurrentUser p (api st) = (r, a1)"
      by (cases "getCurrentUser p (api st)")
    have M: "mount p st = (if truthy r then st\<lparr>api := a1, user := r, loading := False\<rparr>
                           else st\<lparr>api := a1, user := JObject kvs, loading := False\<rparr>)"
      by (simp add: mount_def S mountAsync_def G)
    have 1: "\<exists>u. userFromClaims decoded = Some u
                \<and> mountSync p st = (ProfileCall u, st\<lparr>user := u\<rparr>)
                \<and> user (mount p st)
                    = (if truthy (fst (getCurrentUser p (api st)))
                       then fst (getCurrentUser p (api st)) else u)"
      using u S M G by simp
    have 2: "authenticated (mount p st)"
      by (simp add: M authenticated_def)
    have 3: "sessionStorage (api (mount p st)) = sessionStorage (api st)"
      using getCurrentUser_storage [of p "api st"] G by (simp add: M)
    from 1 2 3 show "(\<exists>u. userFromClaims decoded = Some u
                \<and> mountSync p st = (ProfileCall u, st\<lparr>user := u\<rparr>)
                \<and> user (mount p st)
                    = (if truthy (fst (getCurrentUser p (api st)))
                       then fst (getCurrentUser p (api st)) else u))
            \<and> authenticated (mount p st)
            \<and> sessionStorage (api (mount p st)) = sessionStorage (api st)"
      by (intro conjI)
  qed
  from A B show ?thesis by (intro conjI)
qed

text \<open>
  The cases at concrete inputs, at time 1000 and with a profile endpoint that answers 503:
  the token with \<open>exp\<close> 100 is purged with the access token beside it; the tokens with
  \<open>exp\<close> 2000, with \<open>exp\<close> 0 and with no \<open>exp\<close> give the identity of their claims, which
  the failed profile call leaves in place, and stay stored.
\<close>

theorem bootstrap_from_id_token_witness:
  "getIdToken (api (mounted pastStorage)) = Some pastToken
   \<and> decodePayload failingProfilePlatform pastToken
       = Some (JObject [(''sub'', JString ''u1''), (''exp'', JNumber 100)])
   \<and> (100 :: int) < now failingProfilePlatform
   \<and> getIdToken (api (mount failingProfilePlatform (mounted pastStorage))) = None
   \<and> getAccessToken (api (mount failingProfilePlatform (mounted pastStorage))) = None
   \<and> user (mount failingProfilePlatform (mounted pastStorage)) = JNull
   \<and> getIdToken (api (mounted futureStorage)) = Some futureToken
   \<and> decodePayload failingProfilePlatform futureToken
       = Some (JObject [(''sub'', JString ''u1''), (''exp'', JNumber 2000)])
   \<and> now failingProfilePlatform \<le> 2000
   \<and> fst (getCurrentUser failingProfilePlatform (api (mounted futureStorage))) = JNull
   \<and> authenticated (mount failingProfilePlatform (mounted futureStorage))
   \<and> sessionStorage (api (mount failingProfilePlatform (mounted futureStorage))) = futureStorage
   \<and> getIdToken (api (mounted zeroStorage)) = Some zeroToken
   \<and> decodePayload failingProfilePlatform zeroToken
       = Some (JObject [(''sub'', JString ''u1''), (''exp'', JNumber 0)])
   \<and> authenticated (mount failingProfilePlatform (mounted zeroStorage))
   \<and> sessionStorage (api (mount failingProfilePlatform (mounted zeroStorage))) = zeroStorage
   \<and> getIdToken (api (mounted noExpStorage)) = Some noExpToken
   \<and> decodePayload noExpPlatform noExpToken = Some (JObject [(''sub'', JString ''u1'')])
   \<and> getProp (JObject [(''sub'', JString ''u1'')]) ''exp'' = Some JUndefined
   \<and> authenticated (mount noExpPlatform (mounted noExpStorage))
   \<and> sessionStorage (api (mount noExpPlatform (mounted noExpStorage))) = noExpStorage"
proof -
  let ?p = failingProfilePlatform
  note defs = mount_def mountSync_def mountAsync_def idTokenBranch_def purge_def clearTokens_def
    userFromClaims_def propOf_def jsOr_def decodePayload_def lessThanNow_def mounted_def
    authenticated_def getCurrentUser_def doFetch_def getRequest_def getIdToken_def
    getAccessToken_def getItem_def removeItem_def res_ok_def truthyStr_def orStr_def
    pageLoad_def ID_TOKEN_STORAGE_KEY_def TOKEN_STORAGE_KEY_def CODE_VERIFIER_KEY_def
    STATE_KEY_def REDIRECT_URI_KEY_def
    pastStorage_def pastToken_def futureStorage_def futureToken_def zeroStorage_def
    zeroToken_def noExpStorage_def noExpToken_def noExpText_def noExpPlatform_def
    examplePlatform_def failingProfilePlatform_def exampleJson_def exampleBase64_def
    exampleNetwork_def answer_def quoted_def configText_def profileText_def tokensText_def
    expiredText_def pastText_def zeroText_def futureText_def
  have a: "getIdToken (api (mounted pastStorage)) = Some pastToken" "pastToken \<noteq> []"
    "decodePayload ?p pastToken = Some (JObject [(''sub'', JString ''u1''), (''exp'', JNumber 100)])"
    "getProp (JObject [(''sub'', JString ''u1''), (''exp'', JNumber 100)]) ''exp''
       = Some (JNumber 100)"
    "user (mounted pastStorage) = JNull"
    by (simp_all add: defs)
  have b: "getIdToken (api (mounted futureStorage)) = Some futureToken" "futureToken \<noteq> []"
    "decodePayload ?p futureToken
       = Some (JObject [(''sub'', JString ''u1''), (''exp'', JNumber 2000)])"
    "getProp (JObject [(''sub'', JString ''u1''), (''exp'', JNumber 2000)]) ''exp''
       = Some (JNumber 2000)"
    "user (mounted futureStorage) = JNull"
    by (simp_all add: defs)
  have z: "getIdToken (api (mounted zeroStorage)) = Some zeroToken" "zeroToken \<noteq> []"
    "decodePayload ?p zeroToken
       = Some (JObject [(''sub'', JString ''u1''), (''exp'', JNumber 0)])"
    "getProp (JObject [(''sub'', JString ''u1''), (''exp'', JNumber 0)]) ''exp''
       = Some (JNumber 0)"
    "user (mounted zeroStorage) = JNull"
    by (simp_all add: defs)
  have x: "getIdToken (api (mounted noExpStorage)) = Some noExpToken" "noExpToken \<noteq> []"
    "decodePayload noExpPlatform noExpToken = Some (JObject [(''sub'', JString ''u1'')])"
    "getProp (JObject [(''sub'', JString ''u1'')]) ''exp'' = Some JUndefined"
    "user (mounted noExpStorage) = JNull"
    by (simp_all add: defs)
  have c: "\<exists>e. JNumber 100 = JNumber e \<and> e \<noteq> 0 \<and> e < now ?p"
    "now ?p \<le> 2000" "(100 :: int) < now ?p"
    by (simp_all add: failingProfilePlatform_def examplePlatform_def)
  have d: "fst (getCurrentUser ?p (api (mounted futureStorage))) = JNull"
    by (simp add: defs)
  have e: "sessionStorage (api (mounted futureStorage)) = futureStorage"
    "sessionStorage (api (mounted zeroStorage)) = zeroStorage"
    "sessionStorage (api (mounted noExpStorage)) = noExpStorage"
    by (simp_all add: mounted_def pageLoad_def)
  from bootstrap_from_id_token [OF a] c(1)
  have P: "getIdToken (api (mount ?p (mounted pastStorage))) = None"
    "getAccessToken (api (mount ?p (mounted pastStorage))) = None"
    "user (mount ?p (mounted pastStorage)) = JNull"
    by blast+
  from bootstrap_from_id_token [OF b] c(2)
  have F: "authenticated (mount ?p (mounted futureStorage))"
    "sessionStorage (api (mount ?p (mounted futureStorage)))
       = sessionStorage (api (mounted futureStorage))"
    by blast+
  from bootstrap_from_id_token [OF z]
  have Z: "authenticated (mount ?p (mounted zeroStorage))"
    "sessionStorage (api (mount ?p (mounted zeroStorage)))
       = sessionStorage (api (mounted zeroStorage))"
    by blast+
  from bootstrap_from_id_token [OF x]
  have X: "authenticated (mount noExpPlatform (mounted noExpStorage))"
    "sessionStorage (api (mount noExpPlatform (mounted noExpStorage)))
       = sessionStorage (api (mounted noExpStorage))"
    by blast+
  from a(1,3) b(1,3) z(1,3) x(1,3,4) c(2,3) d e P F Z X show ?thesis by simp
qed

section \<open>Properties of the derived identity\<close>

text \<open>
  C5, as stated, fails on the client. \<open>AuthProvider\<close> and \<open>Callback\<close> take
  \<open>decoded['cognito:groups'] || []\<close> as it is: the claim \<open>"administrators"\<close> gives the
  string as the groups of the identity, the claim \<open>["administrators"]\<close> gives the list.
\<close>

theorem client_groups_differ:
  "clientGroups (claimsWith (JString ''administrators'')) = Some (JString ''administrators'')
   \<and> clientGroups (claimsWith (JArray [JString ''administrators'']))
       = Some (JArray [JString ''administrators''])
   \<and> clientGroups (claimsWith (JString ''administrators''))
       \<noteq> clientGroups (claimsWith (JArray [JString ''administrators'']))"
  by (simp add: clientGroups_def claimsWith_def userFromClaims_def propOf_def jsOr_def)

text \<open>
  C5, amended. On the server, a groups claim given as the single string \<open>g\<close> and one given
  as the list \<open>[g]\<close> normalize to the same groups, \<open>[g]\<close>, and the identities attached for
  claims that differ in this only are the same. On the client the claim is not normalized:
  for a non-empty \<open>g\<close> the identity holds the string \<open>g\<close> in the first case and the list
  \<open>[g]\<close> in the second.
\<close>

theorem groups_string_and_list:
  "g \<noteq> [] \<Longrightarrow>
   normalizeGroups (JString g) = Some [g] \<and> normalizeGroups (JArray [JString g]) = Some [g]
   \<and> serverGroups (JObject ((''cognito:groups'', JString g) # rest))
      = serverGroups (JObject ((''cognito:groups'', JArray [JString g]) # rest))
   \<and> auth (attachAuth (forwarded (JObject ((''cognito:groups'', JString g) # rest))))
      = auth (attachAuth (forwarded (JObject ((''cognito:groups'', JArray [JString g]) # rest))))
   \<and> clientGroups (JObject ((''cognito:groups'', JString g) # rest)) = Some (JString g)
   \<and> clientGroups (JObject ((''cognito:groups'', JArray [JString g]) # rest))
      = Some (JArray [JString g])"
  by (simp add: serverGroups_def clientGroups_def identityOf_def attachAuth_def claimsOf_def
      forwarded_def propOf_def userFromClaims_def jsOr_def split: option.splits)

theorem groups_string_and_list_witness:
  "''administrators'' \<noteq> []
   \<and> serverGroups (JObject [(''cognito:groups'', JString ''administrators''),
        (''sub'', JString ''u1''), (''email'', JString ''u1@app.example'')])
      = Some [''administrators'']
   \<and> serverGroups (JObject [(''cognito:groups'', JArray [JString ''administrators'']),
        (''sub'', JString ''u1''), (''email'', JString ''u1@app.example'')])
      = Some [''administrators'']
   \<and> clientGroups (JObject [(''cognito:groups'', JString ''administrators''),
        (''sub'', JString ''u1''), (''email'', JString ''u1@app.example'')])
      = Some (JString ''administrators'')
   \<and> clientGroups (JObject [(''cognito:groups'', JArray [JString ''administrators'']),
        (''sub'', JString ''u1''), (''email'', JString ''u1@app.example'')])
      = Some (JArray [JString ''administrators''])"
proof -
  have a: "''administrators'' \<noteq> []" by simp
  have b: "serverGroups (JObject [(''cognito:groups'', JArray [JString ''administrators'']),
             (''sub'', JString ''u1''), (''email'', JString ''u1@app.example'')])
           = Some [''administrators'']"
    by (simp add: serverGroups_def attachAuth_def claimsOf_def identityOf_def propOf_def
        forwarded_def)
  from groups_string_and_list [OF a,
      of "[(''sub'', JString ''u1''), (''email'', JString ''u1@app.example'')]"] b
  show ?thesis by simp
qed

section \<open>Properties of the authorization middleware\<close>

text \<open>
  C6. When the request comes in with an \<open>x-amzn-request-context\<close> header on which
  \<open>JSON.parse\<close> throws, the request-context middleware passes the request on as it came,
  no identity is attached, \<open>requireAuth\<close> rejects with \<open>Unauthorized\<close>, HTTP 401, on the
  admin routes as well, and the profile controller answers 401: the same response as for
  a request with no such header.
\<close>

theorem malformed_request_context_is_unauthorized:
  assumes "map_of hs ''x-amzn-request-context'' = Some h"
    and "srv_JSON_parse env h = None"
  shows "requestContextMiddleware env (incoming hs) = incoming hs
    \<and> auth (attachAuth (requestContextMiddleware env (incoming hs))) = None
    \<and> requireAuth (attachAuth (requestContextMiddleware env (incoming hs))) = Inl Unauthorized
    \<and> httpStatus Unauthorized = 401
    \<and> adminPing env (requestContextMiddleware env (incoming hs)) = Rejected Unauthorized
    \<and> srv_status (getProfile env (attachAuth (requestContextMiddleware env (incoming hs)))) = 401
    \<and> requireAuth (attachAuth (requestContextMiddleware env (incoming [])))
        = Inl Unauthorized
    \<and> getProfile env (attachAuth (requestContextMiddleware env (incoming hs)))
        = getProfile env (attachAuth (requestContextMiddleware env (incoming [])))"
  using assms
  by (simp add: requestContextMiddleware_def incoming_def attachAuth_def claimsOf_def
      requireAuth_def adminPing_def getProfile_def replyJson_def)

theorem malformed_request_context_is_unauthorized_witness:
  "map_of [(''x-amzn-request-context'', ''{not json'')] ''x-amzn-request-context'' = Some ''{not json''
   \<and> srv_JSON_parse exampleEnv ''{not json'' = None
   \<and> requireAuth (attachAuth (requestContextMiddleware exampleEnv
        (incoming [(''x-amzn-request-context'', ''{not json'')]))) = Inl Unauthorized
   \<and> srv_status (getProfile exampleEnv (attachAuth (requestContextMiddleware exampleEnv
        (incoming [(''x-amzn-request-context'', ''{not json'')])))) = 401"
proof -
  have a: "map_of [(''x-amzn-request-context'', ''{not json'')] ''x-amzn-request-context''
             = Some ''{not json''"
    by simp
  have b: "srv_JSON_parse exampleEnv ''{not json'' = None"
    by (simp add: exampleEnv_def)
  from malformed_request_context_is_unauthorized [OF a b]
  have c: "requireAuth (attachAuth (requestContextMiddleware exampleEnv
        (incoming [(''x-amzn-request-context'', ''{not json'')]))) = Inl Unauthorized"
    "srv_status (getProfile exampleEnv (attachAuth (requestContextMiddleware exampleEnv
        (incoming [(''x-amzn-request-context'', ''{not json'')])))) = 401"
    by blast+
  from a b c show ?thesis by blast
qed

text \<open>
  C7. On the admin routes, after \<open>attachAuth\<close> has attached an identity and \<open>requireAuth\<close>
  has let it pass, \<open>requireGroup("administrators")\<close> fails the request with \<open>Forbidden\<close>,
  HTTP 403, when the groups of the identity do not contain \<open>administrators\<close>, and lets it
  through to the handler, which answers 200, when they do.
\<close>

theorem requireGroup_administrators:
  assumes "auth (attachAuth req) = Some identity"
  shows "(''administrators'' \<notin> set (groups identity) \<longrightarrow>
            adminPing env req = Rejected Forbidden \<and> outcomeStatus (adminPing env req) = 403)
       \<and> (''administrators'' \<in> set (groups identity) \<longrightarrow>
            adminPing env req = Replied (ping env) \<and> outcomeStatus (adminPing env req) = 200)"
  using assms
  by (simp add: adminPing_def requireAuth_def requireGroup_def outcomeStatus_def ping_def
      replyJson_def)

theorem requireGroup_administrators_witness:
  "auth (attachAuth (forwarded (claimsWith (JArray [JString ''users'']))))
     = Some \<lparr>sub = ''u1'', email = ''u1@app.example'', groups = [''users'']\<rparr>
   \<and> outcomeStatus (adminPing exampleEnv (forwarded (claimsWith (JArray [JString ''users''])))) = 403
   \<and> auth (attachAuth (forwarded
        (claimsWith (JArray [JString ''users'', JString ''administrators'']))))
     = Some \<lparr>sub = ''u1'', email = ''u1@app.example'', groups = [''users'', ''administrators'']\<rparr>
   \<and> adminPing exampleEnv (forwarded
        (claimsWith (JArray [JString ''users'', JString ''administrators''])))
     = Replied (ping exampleEnv)"
proof -
  note defs = attachAuth_def claimsOf_def identityOf_def propOf_def forwarded_def
    claimsWith_def
  have a: "auth (attachAuth (forwarded (claimsWith (JArray [JString ''users'']))))
             = Some \<lparr>sub = ''u1'', email = ''u1@app.example'', groups = [''users'']\<rparr>"
    by (simp add: defs)
  have b: "auth (attachAuth (forwarded
               (claimsWith (JArray [JString ''users'', JString ''administrators'']))))
             = Some \<lparr>sub = ''u1'', email = ''u1@app.example'',
                      groups = [''users'', ''administrators'']\<rparr>"
    by (simp add: defs)
  from requireGroup_administrators [OF a, of exampleEnv]
  have c: "outcomeStatus (adminPing exampleEnv
             (forwarded (claimsWith (JArray [JString ''users''])))) = 403"
    by (simp add: outcomeStatus_def)
  from requireGroup_administrators [OF b, of exampleEnv]
  have d: "adminPing exampleEnv (forwarded
             (claimsWith (JArray [JString ''users'', JString ''administrators''])))
           = Replied (ping exampleEnv)"
    by simp
  from a b c d show ?thesis by blast
qed

section \<open>Properties of the config endpoint\<close>

text \<open>
  C10, as stated, fails. The request carries \<open>Origin: null\<close>, which is not an absolute
  URL, and a \<open>Referer\<close> that is one; the configuration is loaded. \<open>new URL("null")\<close>
  throws inside the \<open>try\<close>: the handler answers 500 with the error of the \<open>catch\<close>, it
  returns no \<open>redirectUri\<close> and it does not fall back on the \<open>Referer\<close>.
\<close>

theorem unparseable_origin_fails:
  "configReady exampleEnv initialConfig
   \<and> map_of (headers (incoming [(''origin'', ''null''),
          (''referer'', ''https://app.example/gallery?page=2'')])) ''origin'' = Some ''null''
   \<and> urlOrigin exampleEnv ''null'' = None
   \<and> urlOrigin exampleEnv ''https://app.example/gallery?page=2'' = Some ''https://app.example''
   \<and> srv_status (fst (getConfig exampleEnv initialConfig
          (incoming [(''origin'', ''null''),
             (''referer'', ''https://app.example/gallery?page=2'')]))) = 500
   \<and> srv_body (fst (getConfig exampleEnv initialConfig
          (incoming [(''origin'', ''null''),
             (''referer'', ''https://app.example/gallery?page=2'')])))
       = JObject [(''error'', JString ''Failed to load configuration'')]
   \<and> redirectUriOf (fst (getConfig exampleEnv initialConfig
          (incoming [(''origin'', ''null''),
             (''referer'', ''https://app.example/gallery?page=2'')]))) = JUndefined"
  by (simp add: configReady_def getConfig_def loadConfig_def getJwtConfig_def valueOrEmpty_def
      matchHere_def initialConfig_def configFailure_def replyJson_def redirectUriOf_def
      propOf_def strOrElse_def orStr_def truthyStr_def incoming_def exampleEnv_def)

text \<open>
  C10, amended. \<open>getConfig\<close> takes the \<open>Origin\<close> header, or the \<open>Referer\<close> header when
  \<open>Origin\<close> is absent or empty. With the configuration ready:
  \<^item> when the header taken is an absolute URL, the handler answers 200 with the origin of
    that URL followed by \<open>/callback\<close> as \<open>redirectUri\<close>;
  \<^item> when the header taken is not an absolute URL (\<open>new URL\<close> throws), the handler
    answers 500 with the configuration error, whatever the other header is;
  \<^item> when neither header is present, or both are empty, it answers 200 with the empty
    string as \<open>redirectUri\<close>, rather than failing.
  When the configuration is not ready, it answers 500 with the configuration error,
  whatever the headers are; so a request without these headers is answered with 500
  only then.
\<close>

theorem getConfig_redirectUri:
  "(configReady env cfg \<and> requestOrigin req = Some h \<and> urlOrigin env h = Some originOfUrl \<longrightarrow>
      srv_status (fst (getConfig env cfg req)) = 200
      \<and> redirectUriOf (fst (getConfig env cfg req)) = JString (originOfUrl @ ''/callback''))
   \<and> (configReady env cfg \<and> requestOrigin req = Some h \<and> urlOrigin env h = None \<longrightarrow>
      fst (getConfig env cfg req) = configFailure
      \<and> srv_status (fst (getConfig env cfg req)) = 500)
   \<and> (configReady env cfg \<and> requestOrigin req = None \<longrightarrow>
      srv_status (fst (getConfig env cfg req)) = 200
      \<and> redirectUriOf (fst (getConfig env cfg req)) = JString [])
   \<and> (\<not> configReady env cfg \<longrightarrow>
      fst (getConfig env cfg req) = configFailure
      \<and> srv_status (fst (getConfig env cfg req)) = 500)
   \<and> (requestOrigin req = None \<longrightarrow>
      (srv_status (fst (getConfig env cfg req)) = 500) = (\<not> configReady env cfg))"
proof -
  obtain r cfg1 where L: "loadConfig env cfg = (r, cfg1)"
    by (cases "loadConfig env cfg")
  show ?thesis
    by (cases r; cases "getJwtConfig cfg1")
       (auto simp: getConfig_def configReady_def requestOrigin_def redirectUriOf_def L Let_def
          configReply_def configFailure_def replyJson_def propOf_def strOrElse_def orStr_def
          truthyStr_def split: if_splits option.splits)
qed

theorem getConfig_redirectUri_witness:
  "configReady exampleEnv initialConfig
   \<and> requestOrigin (incoming [(''origin'', ''https://app.example'')]) = Some ''https://app.example''
   \<and> redirectUriOf (fst (getConfig exampleEnv initialConfig
        (incoming [(''origin'', ''https://app.example'')])))
       = JString ''https://app.example/callback''
   \<and> requestOrigin (incoming [(''referer'', ''https://app.example/gallery?page=2'')])
       = Some ''https://app.example/gallery?page=2''
   \<and> redirectUriOf (fst (getConfig exampleEnv initialConfig
        (incoming [(''referer'', ''https://app.example/gallery?page=2'')])))
       = JString ''https://app.example/callback''
   \<and> requestOrigin (incoming [(''origin'', ''null''),
          (''referer'', ''https://app.example/gallery?page=2'')]) = Some ''null''
   \<and> urlOrigin exampleEnv ''null'' = None
   \<and> srv_status (fst (getConfig exampleEnv initialConfig
        (incoming [(''origin'', ''null''),
           (''referer'', ''https://app.example/gallery?page=2'')]))) = 500
   \<and> requestOrigin (incoming []) = None
   \<and> srv_status (fst (getConfig exampleEnv initialConfig (incoming []))) = 200
   \<and> redirectUriOf (fst (getConfig exampleEnv initialConfig (incoming []))) = JString []
   \<and> \<not> configReady storelessEnv initialConfig
   \<and> srv_status (fst (getConfig storelessEnv initialConfig
        (incoming [(''origin'', ''https://app.example'')]))) = 500
   \<and> srv_status (fst (getConfig storelessEnv initialConfig (incoming []))) = 500"
proof -
  note defs = configReady_def loadConfig_def getJwtConfig_def valueOrEmpty_def matchHere_def
    initialConfig_def requestOrigin_def truthyStr_def incoming_def exampleEnv_def
    storelessEnv_def
  have a: "configReady exampleEnv initialConfig"
    by (simp add: defs)
  have b: "requestOrigin (incoming [(''origin'', ''https://app.example'')])
             = Some ''https://app.example''"
    "urlOrigin exampleEnv ''https://app.example'' = Some ''https://app.example''"
    by (simp_all add: defs)
  have c: "requestOrigin (incoming [(''referer'', ''https://app.example/gallery?page=2'')])
             = Some ''https://app.example/gallery?page=2''"
    "urlOrigin exampleEnv ''https://app.example/gallery?page=2'' = Some ''https://app.example''"
    by (simp_all add: defs)
  have n: "requestOrigin (incoming [(''origin'', ''null''),
             (''referer'', ''https://app.example/gallery?page=2'')]) = Some ''null''"
    "urlOrigin exampleEnv ''null'' = None"
    by (simp_all add: defs)
  have d: "requestOrigin (incoming []) = None"
    by (simp add: defs)
  have e: "\<not> configReady storelessEnv initialConfig"
    by (simp add: defs)
  from a b
    getConfig_redirectUri [of exampleEnv initialConfig
      "incoming [(''origin'', ''https://app.example'')]" "''https://app.example''"
      "''https://app.example''"]
  have 1: "redirectUriOf (fst (getConfig exampleEnv initialConfig
        (incoming [(''origin'', ''https://app.example'')])))
       = JString ''https://app.example/callback''"
    by simp
  from a c
    getConfig_redirectUri [of exampleEnv initialConfig
      "incoming [(''referer'', ''https://app.example/gallery?page=2'')]"
      "''https://app.example/gallery?page=2''" "''https://app.example''"]
  have 2: "redirectUriOf (fst (getConfig exampleEnv initialConfig
        (incoming [(''referer'', ''https://app.example/gallery?page=2'')])))
       = JString ''https://app.example/callback''"
    by simp
  from a n
    getConfig_redirectUri [of exampleEnv initialConfig
      "incoming [(''origin'', ''null''), (''referer'', ''https://app.example/gallery?page=2'')]"
      "''null''"]
  have 5: "srv_status (fst (getConfig exampleEnv initialConfig
        (incoming [(''origin'', ''null''),
           (''referer'', ''https://app.example/gallery?page=2'')]))) = 500"
    by (simp add: configFailure_def replyJson_def)
  from a d getConfig_redirectUri [of exampleEnv initialConfig "incoming []"]
  have 3: "srv_status (fst (getConfig exampleEnv initialConfig (incoming []))) = 200"
    "redirectUriOf (fst (getConfig exampleEnv initialConfig (incoming []))) = JString []"
    by simp_all
  from e getConfig_redirectUri [of storelessEnv initialConfig "incoming []"]
  have 4: "srv_status (fst (getConfig storelessEnv initialConfig (incoming []))) = 500"
    by (simp add: configFailure_def replyJson_def)
  from e getConfig_redirectUri [of storelessEnv initialConfig
      "incoming [(''origin'', ''https://app.example'')]"]
  have 6: "srv_status (fst (getConfig storelessEnv initialConfig
        (incoming [(''origin'', ''https://app.example'')]))) = 500"
    by (simp add: configFailure_def replyJson_def)
  from a b(1) c(1) n d e 1 2 3 4 5 6 show ?thesis by blast
qed

end
